theory Spec2Isabelle
  imports Complex_Main "HOL-Library.AList"
begin

section \<open>Grid: dense volumetric storage (src/geometry/grid.ts)\<close>

text \<open>
  A grid owns a typed array of \<open>length * width * height * elemSize\<close> cells, zero-filled by
  the constructor. The element constructor is one of the integer typed arrays (the default
  \<open>Int32Array\<close>, or \<open>Uint8Array\<close>), so the cells are integers; a write converts the
  value to the array's range. Dimensions and coordinates are natural numbers.
\<close>

datatype DataCtor = Int32Array | Uint8Array

record Grid =
  length_grid :: nat
  width :: nat
  height :: nat
  dataCtor :: DataCtor
  elemSize :: nat
  data :: "int list"

text \<open>What a JavaScript call evaluates to: a value, or \<open>undefined\<close> for a method whose body
  has no \<open>return\<close>.\<close>

datatype 'a returned = ReturnsUndefined | Returns 'a

text \<open>Exceptions of the JavaScript runtime that the modelled code can raise. \<open>Unmodelled\<close>
  marks an input outside the fragment of JavaScript values the model covers (arithmetic on
  strings, an object stored in a scalar column): the model makes no statement there.\<close>

datatype js_error = TypeError | RangeError | Unmodelled

definition new_Grid :: "nat \<Rightarrow> nat \<Rightarrow> nat \<Rightarrow> DataCtor \<Rightarrow> nat \<Rightarrow> Grid" where
  "new_Grid l w h c e =
     \<lparr>length_grid = l, width = w, height = h, dataCtor = c, elemSize = e,
      data = replicate (l * w * h * e) 0\<rparr>"

text \<open>The conversion of a value stored into an integer typed array: modulo \<open>2^32\<close>
  into the signed range for \<open>Int32Array\<close>, modulo \<open>2^8\<close> for \<open>Uint8Array\<close>.\<close>

fun store_conv :: "DataCtor \<Rightarrow> int \<Rightarrow> int" where
  "store_conv Int32Array v = (v + 2147483648) mod 4294967296 - 2147483648"
| "store_conv Uint8Array v = v mod 256"

text \<open>\<open>TypedArray.prototype.set(source)\<close> on a target of element type \<open>c\<close>: copies the
  source over the front of the target, converting each element to the target's element
  type; a source longer than the target raises \<open>RangeError\<close>.\<close>

definition typed_array_set :: "DataCtor \<Rightarrow> int list \<Rightarrow> int list \<Rightarrow> js_error + int list" where
  "typed_array_set c target source =
     (if length source \<le> length target
      then Inr (map (store_conv c) source @ drop (length source) target)
      else Inl RangeError)"

text \<open>\<open>copy (grid) { this.data.set(grid.data) }\<close>: the receiver is updated; the body has no
  \<open>return\<close>, so the call evaluates to \<open>undefined\<close>. The result pairs the updated receiver
  with the value of the call.\<close>

definition copy :: "Grid \<Rightarrow> Grid \<Rightarrow> js_error + (Grid \<times> Grid returned)" where
  "copy this grid =
     (case typed_array_set (dataCtor this) (data this) (data grid) of
        Inl e \<Rightarrow> Inl e
      | Inr d \<Rightarrow> Inr (this\<lparr>data := d\<rparr>, ReturnsUndefined))"

text \<open>\<open>clone () { return new Grid(...).copy(this) }\<close>: the value of the \<open>copy\<close> call is
  what \<open>clone\<close> returns.\<close>

definition clone :: "Grid \<Rightarrow> js_error + Grid returned" where
  "clone this =
     (case copy (new_Grid (length_grid this) (width this) (height this)
                   (dataCtor this) (elemSize this)) this of
        Inl e \<Rightarrow> Inl e
      | Inr (fresh, r) \<Rightarrow> Inr r)"

definition index :: "Grid \<Rightarrow> nat \<Rightarrow> nat \<Rightarrow> nat \<Rightarrow> nat" where
  "index this x y z = ((((x * width this) + y) * height this) + z) * elemSize this"

text \<open>
  Element access on the typed array and on a plain array. A typed array has a fixed
  length: a write past its end is ignored and a read there gives \<open>undefined\<close>
  (\<open>None\<close>). A plain array grows on a write past its end, with holes in between.
  \<open>arguments[3 + j]\<close> and \<open>array[offset + j]\<close> read \<open>undefined\<close> where nothing was
  passed, which an integer array stores as \<open>0\<close>.
\<close>

definition typed_array_write :: "DataCtor \<Rightarrow> int list \<Rightarrow> nat \<Rightarrow> int \<Rightarrow> int list" where
  "typed_array_write c d i v = (if i < length d then d[i := store_conv c v] else d)"

definition typed_array_read :: "int list \<Rightarrow> nat \<Rightarrow> int option" where
  "typed_array_read d i = (if i < length d then Some (d ! i) else None)"

definition js_array_write :: "int option list \<Rightarrow> nat \<Rightarrow> int option \<Rightarrow> int option list" where
  "js_array_write a i v =
     (if i < length a then a[i := v] else a @ replicate (i - length a) None @ [v])"

definition argument :: "int list \<Rightarrow> nat \<Rightarrow> int" where
  "argument values j = (if j < length values then values ! j else 0)"

text \<open>\<open>set (x, y, z, ...)\<close>: the values after the coordinates fill the cell.\<close>

definition set_grid :: "Grid \<Rightarrow> nat \<Rightarrow> nat \<Rightarrow> nat \<Rightarrow> int list \<Rightarrow> Grid" where
  "set_grid this x y z values =
     (let i = index this x y z
      in this\<lparr>data := fold (\<lambda>j d. typed_array_write (dataCtor this) d (i + j) (argument values j))
                          [0..<elemSize this] (data this)\<rparr>)"

text \<open>\<open>toArray (x, y, z, array, offset)\<close> writes the cell into the caller's array and
  returns nothing; the result is that array. (Without an array the method fills a local
  one that the caller never sees.) \<open>fromArray\<close> is the converse.\<close>

definition toArray :: "Grid \<Rightarrow> nat \<Rightarrow> nat \<Rightarrow> nat \<Rightarrow> int option list \<Rightarrow> nat \<Rightarrow> int option list" where
  "toArray this x y z array offset =
     (let i = index this x y z
      in fold (\<lambda>j a. js_array_write a (offset + j) (typed_array_read (data this) (i + j)))
           [0..<elemSize this] array)"

definition fromArray :: "Grid \<Rightarrow> nat \<Rightarrow> nat \<Rightarrow> nat \<Rightarrow> int list \<Rightarrow> nat \<Rightarrow> Grid" where
  "fromArray this x y z array offset =
     (let i = index this x y z
      in this\<lparr>data := fold (\<lambda>j d. typed_array_write (dataCtor this) d (i + j)
                                     (argument array (offset + j)))
                          [0..<elemSize this] (data this)\<rparr>)"

text \<open>The constructor's invariant: the backing array has one slot per cell value.\<close>

definition grid_wf :: "Grid \<Rightarrow> bool" where
  "grid_wf g = (length (data g) = length_grid g * width g * height g * elemSize g)"

section \<open>Primitive: shape field schema (geometry/primitive, the second part of src/geometry/grid.ts)\<close>

text \<open>
  The values a column of a shape or a component of a vector holds: \<open>undefined\<close>, a number
  (a real, or \<open>NaN\<close>; rounding and infinities of IEEE doubles are not modelled) or a
  string.
\<close>

datatype cell = Undef | NaN | Num real | Str string

datatype Vector3 = Vector3 cell cell cell

datatype Color = Color cell cell cell

text \<open>A picking id or an array index: a natural number, or \<open>None\<close> for \<open>undefined\<close>.
  Arithmetic on \<open>undefined\<close> gives \<open>NaN\<close>, and reading an array at \<open>undefined\<close>, at
  \<open>NaN\<close> or past its end gives \<open>undefined\<close>; \<open>None\<close> stands for both.\<close>

type_synonym pick_id = "nat option"

definition array_get :: "cell list \<Rightarrow> pick_id \<Rightarrow> cell" where
  "array_get xs i =
     (case i of None \<Rightarrow> Undef | Some n \<Rightarrow> if n < length xs then xs ! n else Undef)"

definition offset_plus :: "pick_id \<Rightarrow> nat \<Rightarrow> pick_id" where
  "offset_plus i k = map_option (\<lambda>n. n + k) i"

definition times3 :: "pick_id \<Rightarrow> pick_id" where
  "times3 i = map_option (\<lambda>n. 3 * n) i"

text \<open>three.js: \<open>fromArray (array, offset)\<close> reads three consecutive slots.\<close>

definition Vector3_fromArray :: "cell list \<Rightarrow> pick_id \<Rightarrow> Vector3" where
  "Vector3_fromArray xs off =
     Vector3 (array_get xs off) (array_get xs (offset_plus off 1)) (array_get xs (offset_plus off 2))"

definition Color_fromArray :: "cell list \<Rightarrow> pick_id \<Rightarrow> Color" where
  "Color_fromArray xs off =
     Color (array_get xs off) (array_get xs (offset_plus off 1)) (array_get xs (offset_plus off 2))"

text \<open>JavaScript \<open>+\<close> and \<open>*\<close> on numbers: \<open>undefined\<close> converts to \<open>NaN\<close>, and \<open>NaN\<close>
  is absorbing. A string operand is outside the model.\<close>

fun js_add :: "cell \<Rightarrow> cell \<Rightarrow> js_error + cell" where
  "js_add (Str a) y = Inl Unmodelled"
| "js_add x (Str b) = Inl Unmodelled"
| "js_add (Num a) (Num b) = Inr (Num (a + b))"
| "js_add x y = Inr NaN"

fun js_mul :: "cell \<Rightarrow> real \<Rightarrow> js_error + cell" where
  "js_mul (Str a) s = Inl Unmodelled"
| "js_mul (Num a) s = Inr (Num (a * s))"
| "js_mul x s = Inr NaN"

text \<open>three.js: \<open>addVectors (a, b)\<close> (\<open>add\<close> and \<open>copy(a).add(b)\<close> compute the same sums)
  and \<open>multiplyScalar (s)\<close>, componentwise.\<close>

fun addVectors :: "Vector3 \<Rightarrow> Vector3 \<Rightarrow> js_error + Vector3" where
  "addVectors (Vector3 a1 a2 a3) (Vector3 b1 b2 b3) =
     (case (js_add a1 b1, js_add a2 b2, js_add a3 b3) of
        (Inr c1, Inr c2, Inr c3) \<Rightarrow> Inr (Vector3 c1 c2 c3)
      | _ \<Rightarrow> Inl Unmodelled)"

fun multiplyScalar :: "Vector3 \<Rightarrow> real \<Rightarrow> js_error + Vector3" where
  "multiplyScalar (Vector3 a1 a2 a3) s =
     (case (js_mul a1 s, js_mul a2 s, js_mul a3 s) of
        (Inr c1, Inr c2, Inr c3) \<Rightarrow> Inr (Vector3 c1 c2 c3)
      | _ \<Rightarrow> Inl Unmodelled)"

definition midpoint_js :: "Vector3 \<Rightarrow> Vector3 \<Rightarrow> js_error + Vector3" where
  "midpoint_js p1 p2 =
     (case addVectors p1 p2 of Inl e \<Rightarrow> Inl e | Inr v \<Rightarrow> multiplyScalar v (1 / 2))"

text \<open>A value handed to \<open>objectToShape\<close> for one field: a plain array, an object exposing
  \<open>toArray()\<close> (a three.js vector or colour; the list is what \<open>toArray()\<close> returns), a
  plain \<open>{x, y, z}\<close> or \<open>{r, g, b}\<close> object, or a scalar.\<close>

datatype elm =
    ArrayElm "cell list"
  | ToArrayElm "cell list"
  | XYZElm cell cell cell
  | RGBElm cell cell cell
  | ScalarElm cell

text \<open>
  \<open>addElement (elm, array)\<close>. Reading \<open>elm.toArray\<close> of \<open>undefined\<close> raises; for another
  scalar all three property reads give \<open>undefined\<close> and \<open>push.apply(array, elm)\<close> raises,
  since a primitive is not array-like. A plain object whose \<open>x\<close> (or \<open>r\<close>) is
  \<open>undefined\<close> falls through to \<open>push.apply\<close> with no \<open>length\<close>: nothing is pushed.
\<close>

fun addElement :: "elm \<Rightarrow> cell list \<Rightarrow> js_error + cell list" where
  "addElement (ToArrayElm xs) array = Inr (array @ xs)"
| "addElement (ArrayElm xs) array = Inr (array @ xs)"
| "addElement (XYZElm x y z) array = (if x \<noteq> Undef then Inr (array @ [x, y, z]) else Inr array)"
| "addElement (RGBElm r g b) array = (if r \<noteq> Undef then Inr (array @ [r, g, b]) else Inr array)"
| "addElement (ScalarElm c) array = Inl TypeError"

datatype Primitive =
    Primitive
  | SpherePrimitive
  | BoxPrimitive
  | OctahedronPrimitive
  | TetrahedronPrimitive
  | CylinderPrimitive
  | ArrowPrimitive
  | ConePrimitive
  | EllipsoidPrimitive
  | TorusPrimitive
  | TextPrimitive
  | PointPrimitive
  | WidelinePrimitive

text \<open>The \<open>type\<close> tag. The base class leaves it unset; in a string concatenation and in a
  template the unset tag reads \<open>undefined\<close>.\<close>

fun type_of :: "Primitive \<Rightarrow> string" where
  "type_of Primitive = ''undefined''"
| "type_of SpherePrimitive = ''sphere''"
| "type_of BoxPrimitive = ''box''"
| "type_of OctahedronPrimitive = ''octahedron''"
| "type_of TetrahedronPrimitive = ''tetrahedron''"
| "type_of CylinderPrimitive = ''cylinder''"
| "type_of ArrowPrimitive = ''arrow''"
| "type_of ConePrimitive = ''cone''"
| "type_of EllipsoidPrimitive = ''ellipsoid''"
| "type_of TorusPrimitive = ''torus''"
| "type_of TextPrimitive = ''text''"
| "type_of PointPrimitive = ''point''"
| "type_of WidelinePrimitive = ''wideline''"

text \<open>The field schema, in the order \<open>Object.keys\<close> enumerates it.\<close>

definition box_fields :: "(string \<times> string) list" where
  "box_fields = [(''position'', ''v3''), (''color'', ''c''), (''size'', ''f''),
                 (''heightAxis'', ''v3''), (''depthAxis'', ''v3'')]"

definition cylinder_fields :: "(string \<times> string) list" where
  "cylinder_fields = [(''position1'', ''v3''), (''position2'', ''v3''), (''color'', ''c''),
                      (''radius'', ''f'')]"

definition ellipsoid_fields :: "(string \<times> string) list" where
  "ellipsoid_fields = [(''position'', ''v3''), (''color'', ''c''), (''radius'', ''f''),
                       (''majorAxis'', ''v3''), (''minorAxis'', ''v3'')]"

fun fields_of :: "Primitive \<Rightarrow> (string \<times> string) list" where
  "fields_of Primitive = []"
| "fields_of SpherePrimitive = [(''position'', ''v3''), (''color'', ''c''), (''radius'', ''f'')]"
| "fields_of BoxPrimitive = box_fields"
| "fields_of OctahedronPrimitive = box_fields"
| "fields_of TetrahedronPrimitive = box_fields"
| "fields_of CylinderPrimitive = cylinder_fields"
| "fields_of ArrowPrimitive = cylinder_fields"
| "fields_of ConePrimitive = cylinder_fields"
| "fields_of EllipsoidPrimitive = ellipsoid_fields"
| "fields_of TorusPrimitive = ellipsoid_fields"
| "fields_of TextPrimitive = [(''position'', ''v3''), (''color'', ''c''), (''size'', ''f''), (''text'', ''s'')]"
| "fields_of PointPrimitive = [(''position'', ''v3''), (''color'', ''c'')]"
| "fields_of WidelinePrimitive = [(''position1'', ''v3''), (''position2'', ''v3''), (''color'', ''c'')]"

definition toUpperChar :: "char \<Rightarrow> char" where
  "toUpperChar c =
     (case map_of (zip ''abcdefghijklmnopqrstuvwxyz'' ''ABCDEFGHIJKLMNOPQRSTUVWXYZ'') c of
        None \<Rightarrow> c
      | Some u \<Rightarrow> u)"

text \<open>\<open>this.type + name[0].toUpperCase() + name.substr(1)\<close>; \<open>name[0]\<close> of the empty
  string is \<open>undefined\<close>, whose \<open>toUpperCase\<close> raises.\<close>

definition getShapeKey :: "Primitive \<Rightarrow> string \<Rightarrow> js_error + string" where
  "getShapeKey this name =
     (case name of
        [] \<Rightarrow> Inl TypeError
      | c # cs \<Rightarrow> Inr (type_of this @ toUpperChar c # cs))"

text \<open>
  Modelled from the spec: the class \<open>Shape\<close> (\<open>./shape\<close>) is not among the sources. A
  shape has a name, the per-field columns \<open>_primitiveData\<close> keyed by shape key (\<open>None\<close>
  where the object has no such column), and a running bounding box; the three.js box is
  kept as the list of points it was expanded by.
\<close>

record Shape =
  shape_name :: string
  primitiveData :: "string \<Rightarrow> cell list option"
  boundingBox :: "Vector3 list"

text \<open>A data object handed to \<open>objectToShape\<close>: its properties in order; a missing
  property reads \<open>undefined\<close>.\<close>

type_synonym shape_data = "(string \<times> elm) list"

definition property :: "shape_data \<Rightarrow> string \<Rightarrow> elm" where
  "property d k = (case map_of d k of None \<Rightarrow> ScalarElm Undef | Some e \<Rightarrow> e)"

text \<open>\<open>data.push(value)\<close> for a scalar field; an object in a scalar column is outside the
  model.\<close>

fun push_value :: "elm \<Rightarrow> cell list \<Rightarrow> js_error + cell list" where
  "push_value (ScalarElm c) array = Inr (array @ [c])"
| "push_value e array = Inl Unmodelled"

definition valueToShape :: "Primitive \<Rightarrow> Shape \<Rightarrow> string \<Rightarrow> elm \<Rightarrow> js_error + Shape" where
  "valueToShape this shape name value =
     (case getShapeKey this name of
        Inl e \<Rightarrow> Inl e
      | Inr key \<Rightarrow>
          (case primitiveData shape key of
             None \<Rightarrow> Inl TypeError
           | Some d \<Rightarrow>
               (case (if map_of (fields_of this) name = Some ''v3'' \<or> map_of (fields_of this) name = Some ''c''
                      then addElement value d
                      else push_value value d) of
                  Inl e \<Rightarrow> Inl e
                | Inr d' \<Rightarrow> Inr (shape\<lparr>primitiveData := (primitiveData shape)(key \<mapsto> d')\<rparr>))))"

text \<open>three.js \<open>tmpVec.fromArray(v)\<close> on a field value: indexed reads \<open>v[0]\<close>, \<open>v[1]\<close>,
  \<open>v[2]\<close>. An object that is not an array has no indexed slots; a string has its
  characters; \<open>undefined\<close> raises.\<close>

fun string_get :: "string \<Rightarrow> nat \<Rightarrow> cell" where
  "string_get s i = (if i < length s then Str [s ! i] else Undef)"

fun point_fromArray :: "elm \<Rightarrow> js_error + Vector3" where
  "point_fromArray (ArrayElm xs) = Inr (Vector3_fromArray xs (Some 0))"
| "point_fromArray (ScalarElm Undef) = Inl TypeError"
| "point_fromArray (ScalarElm (Str s)) = Inr (Vector3 (string_get s 0) (string_get s 1) (string_get s 2))"
| "point_fromArray e = Inr (Vector3 Undef Undef Undef)"

definition expandByPoint :: "Vector3 list \<Rightarrow> elm \<Rightarrow> js_error + Vector3 list" where
  "expandByPoint box e = (case point_fromArray e of Inl err \<Rightarrow> Inl err | Inr v \<Rightarrow> Inr (box @ [v]))"

definition expand_position :: "Vector3 list \<Rightarrow> shape_data \<Rightarrow> js_error + Vector3 list" where
  "expand_position box d = expandByPoint box (property d ''position'')"

definition expand_position12 :: "Vector3 list \<Rightarrow> shape_data \<Rightarrow> js_error + Vector3 list" where
  "expand_position12 box d =
     (case expandByPoint box (property d ''position1'') of
        Inl e \<Rightarrow> Inl e
      | Inr box' \<Rightarrow> expandByPoint box' (property d ''position2''))"

fun expandBoundingBox :: "Primitive \<Rightarrow> Vector3 list \<Rightarrow> shape_data \<Rightarrow> js_error + Vector3 list" where
  "expandBoundingBox Primitive box d = Inr box"
| "expandBoundingBox CylinderPrimitive box d = expand_position12 box d"
| "expandBoundingBox ArrowPrimitive box d = expand_position12 box d"
| "expandBoundingBox ConePrimitive box d = expand_position12 box d"
| "expandBoundingBox WidelinePrimitive box d = expand_position12 box d"
| "expandBoundingBox p box d = expand_position box d"

text \<open>The \<open>forEach\<close> over the field names of \<open>objectToShape\<close>.\<close>

fun valuesToShape :: "Primitive \<Rightarrow> Shape \<Rightarrow> string list \<Rightarrow> shape_data \<Rightarrow> js_error + Shape" where
  "valuesToShape this shape [] d = Inr shape"
| "valuesToShape this shape (name # names) d =
     (case valueToShape this shape name (property d name) of
        Inl e \<Rightarrow> Inl e
      | Inr shape' \<Rightarrow> valuesToShape this shape' names d)"

definition objectToShape :: "Primitive \<Rightarrow> Shape \<Rightarrow> shape_data \<Rightarrow> js_error + Shape" where
  "objectToShape this shape d =
     (case valuesToShape this shape (map fst (fields_of this)) d of
        Inl e \<Rightarrow> Inl e
      | Inr s1 \<Rightarrow>
          (case valueToShape this s1 ''name'' (property d ''name'') of
             Inl e \<Rightarrow> Inl e
           | Inr s2 \<Rightarrow>
               (case expandBoundingBox this (boundingBox s2) d of
                  Inl e \<Rightarrow> Inl e
                | Inr box \<Rightarrow> Inr (s2\<lparr>boundingBox := box\<rparr>))))"

datatype shape_value = V3 Vector3 | Col Color | Cell cell

definition valueFromShape :: "Primitive \<Rightarrow> Shape \<Rightarrow> pick_id \<Rightarrow> string \<Rightarrow> js_error + shape_value" where
  "valueFromShape this shape pid name =
     (case getShapeKey this name of
        Inl e \<Rightarrow> Inl e
      | Inr key \<Rightarrow>
          (case primitiveData shape key of
             None \<Rightarrow> Inl TypeError
           | Some d \<Rightarrow>
               (if map_of (fields_of this) name = Some ''v3'' then Inr (V3 (Vector3_fromArray d (times3 pid)))
                else if map_of (fields_of this) name = Some ''c'' then Inr (Col (Color_fromArray d (times3 pid)))
                else Inr (Cell (array_get d pid)))))"

fun string_of_nat :: "nat \<Rightarrow> string" where
  "string_of_nat n =
     (if n < 10 then [''0123456789'' ! n]
      else string_of_nat (n div 10) @ [''0123456789'' ! (n mod 10)])"

definition string_of_pid :: "pick_id \<Rightarrow> string" where
  "string_of_pid pid = (case pid of None \<Rightarrow> ''undefined'' | Some n \<Rightarrow> string_of_nat n)"

text \<open>The object \<open>objectFromShape\<close> returns: the shape it was read from and its other
  properties in insertion order, \<open>name\<close> first.\<close>

record ShapeObject =
  object_shape :: Shape
  object_props :: "(string \<times> shape_value) list"

fun fieldsFromShape ::
  "Primitive \<Rightarrow> Shape \<Rightarrow> pick_id \<Rightarrow> string list \<Rightarrow> (string \<times> shape_value) list \<Rightarrow>
   js_error + (string \<times> shape_value) list" where
  "fieldsFromShape this shape pid [] o_props = Inr o_props"
| "fieldsFromShape this shape pid (name # names) o_props =
     (case valueFromShape this shape pid name of
        Inl e \<Rightarrow> Inl e
      | Inr v \<Rightarrow> fieldsFromShape this shape pid names (AList.update name v o_props))"

definition objectFromShape :: "Primitive \<Rightarrow> Shape \<Rightarrow> pick_id \<Rightarrow> js_error + ShapeObject" where
  "objectFromShape this shape pid =
     (case valueFromShape this shape pid ''name'' of
        Inl e \<Rightarrow> Inl e
      | Inr nm \<Rightarrow>
          (let name = (if nm = Cell Undef
                       then Cell (Str (type_of this @ '': '' @ string_of_pid pid @ '' ('' @ shape_name shape @ '')''))
                       else nm)
           in case fieldsFromShape this shape pid (map fst (fields_of this)) [(''name'', name)] of
                Inl e \<Rightarrow> Inl e
              | Inr ps \<Rightarrow> Inr \<lparr>object_shape = shape, object_props = ps\<rparr>))"

definition midpointFromShape :: "Primitive \<Rightarrow> Shape \<Rightarrow> pick_id \<Rightarrow> js_error + shape_value" where
  "midpointFromShape this shape pid =
     (case valueFromShape this shape pid ''position1'' of
        Inr (V3 p1) \<Rightarrow>
          (case valueFromShape this shape pid ''position2'' of
             Inr (V3 p2) \<Rightarrow> map_sum id V3 (midpoint_js p1 p2)
           | Inr v \<Rightarrow> Inl TypeError
           | Inl e \<Rightarrow> Inl e)
      | Inr v \<Rightarrow> Inl TypeError
      | Inl e \<Rightarrow> Inl e)"

fun positionFromShape :: "Primitive \<Rightarrow> Shape \<Rightarrow> pick_id \<Rightarrow> js_error + shape_value" where
  "positionFromShape CylinderPrimitive shape pid = midpointFromShape CylinderPrimitive shape pid"
| "positionFromShape ArrowPrimitive shape pid = midpointFromShape ArrowPrimitive shape pid"
| "positionFromShape ConePrimitive shape pid = midpointFromShape ConePrimitive shape pid"
| "positionFromShape WidelinePrimitive shape pid = midpointFromShape WidelinePrimitive shape pid"
| "positionFromShape p shape pid = valueFromShape p shape pid ''position''"

text \<open>
  Modelled from the spec: a fresh shape, as its constructor (not among the sources) leaves
  it: an empty column for every field of every primitive kind and for each kind's
  \<open>name\<close>, and an empty bounding box.
\<close>

definition all_primitives :: "Primitive list" where
  "all_primitives =
     [SpherePrimitive, BoxPrimitive, OctahedronPrimitive, TetrahedronPrimitive, CylinderPrimitive,
      ArrowPrimitive, ConePrimitive, EllipsoidPrimitive, TorusPrimitive, TextPrimitive,
      PointPrimitive, WidelinePrimitive]"

definition shape_keys :: "Primitive \<Rightarrow> string list" where
  "shape_keys p =
     concat (map (\<lambda>name. case getShapeKey p name of Inl e \<Rightarrow> [] | Inr k \<Rightarrow> [k])
               (map fst (fields_of p) @ [''name'']))"

definition new_Shape :: "string \<Rightarrow> Shape" where
  "new_Shape nm =
     \<lparr>shape_name = nm,
      primitiveData = (\<lambda>k. if k \<in> set (concat (map shape_keys all_primitives)) then Some [] else None),
      boundingBox = []\<rparr>"

section \<open>Picker: pick-id resolution (src/utils/picker.ts)\<close>

text \<open>
  \<open>getIndex (pid) { return this.array ? this.array[pid] : pid }\<close>. The optional mapping
  is \<open>None\<close> when absent; an array, even the empty one, is truthy, and reading it out of
  range gives \<open>undefined\<close>.
\<close>

definition index_get :: "nat list \<Rightarrow> pick_id \<Rightarrow> pick_id" where
  "index_get xs i =
     (case i of None \<Rightarrow> None | Some n \<Rightarrow> if n < length xs then Some (xs ! n) else None)"

definition getIndex :: "nat list option \<Rightarrow> pick_id \<Rightarrow> pick_id" where
  "getIndex array pid = (case array of None \<Rightarrow> pid | Some xs \<Rightarrow> index_get xs pid)"

text \<open>
  \<open>ShapePicker\<close>: \<open>constructor (readonly shape: Shape) { super([]) }\<close> hands the base
  class the empty array as its mapping. The concrete shape pickers differ in the primitive
  their \<open>primitive\<close> getter returns.
\<close>

record ShapePicker =
  picker_array :: "nat list option"
  picker_shape :: Shape
  primitive :: Primitive

definition new_ShapePicker :: "Primitive \<Rightarrow> Shape \<Rightarrow> ShapePicker" where
  "new_ShapePicker p shape = \<lparr>picker_array = Some [], picker_shape = shape, primitive = p\<rparr>"

definition CylinderPicker :: "Shape \<Rightarrow> ShapePicker" where
  "CylinderPicker shape = new_ShapePicker CylinderPrimitive shape"

definition ArrowPicker :: "Shape \<Rightarrow> ShapePicker" where
  "ArrowPicker shape = new_ShapePicker ArrowPrimitive shape"

definition ConePicker :: "Shape \<Rightarrow> ShapePicker" where
  "ConePicker shape = new_ShapePicker ConePrimitive shape"

definition SpherePicker :: "Shape \<Rightarrow> ShapePicker" where
  "SpherePicker shape = new_ShapePicker SpherePrimitive shape"

definition WidelinePicker :: "Shape \<Rightarrow> ShapePicker" where
  "WidelinePicker shape = new_ShapePicker WidelinePrimitive shape"

definition ShapePicker_getObject :: "ShapePicker \<Rightarrow> pick_id \<Rightarrow> js_error + ShapeObject" where
  "ShapePicker_getObject this pid =
     objectFromShape (primitive this) (picker_shape this) (getIndex (picker_array this) pid)"

definition ShapePicker_getPosition :: "ShapePicker \<Rightarrow> pick_id \<Rightarrow> js_error + shape_value" where
  "ShapePicker_getPosition this pid =
     positionFromShape (primitive this) (picker_shape this) (getIndex (picker_array this) pid)"

text \<open>
  Modelled from the spec: the structure and its proxies are not among the sources. An atom
  proxy is reduced to the vector its \<open>positionToVector3()\<close> returns, a bond proxy to its
  two atoms, and \<open>structure.getBondProxy\<close> (read through the picker's bond store) to a
  function of the data index.
\<close>

record AtomProxy =
  positionToVector3 :: Vector3

record BondProxy =
  atom1 :: AtomProxy
  atom2 :: AtomProxy

record BondPicker =
  bond_array :: "nat list option"
  getBondProxy :: "pick_id \<Rightarrow> BondProxy"

definition BondPicker_getObject :: "BondPicker \<Rightarrow> pick_id \<Rightarrow> BondProxy" where
  "BondPicker_getObject this pid = getBondProxy this (getIndex (bond_array this) pid)"

text \<open>\<open>new Vector3().copy(b.atom1.positionToVector3()).add(b.atom2.positionToVector3())
  .multiplyScalar(0.5)\<close>.\<close>

definition BondPicker_getPosition :: "BondPicker \<Rightarrow> pick_id \<Rightarrow> js_error + Vector3" where
  "BondPicker_getPosition this pid =
     (let b = BondPicker_getObject this pid
      in midpoint_js (positionToVector3 (atom1 b)) (positionToVector3 (atom2 b)))"

text \<open>
  The contact picker reads the feature centres and the contact store of its \<open>contacts\<close>
  object. Of the object \<open>getObject\<close> returns, the two centres are kept; the atom proxies
  and the type name come from code that is not among the sources. Reading
  \<open>atomSets[k][0]\<close> raises when \<open>atomSets[k]\<close> is \<open>undefined\<close>.
\<close>

record Contacts =
  centers_x :: "cell list"
  centers_y :: "cell list"
  centers_z :: "cell list"
  atomSets :: "nat list list"
  index1 :: "nat list"
  index2 :: "nat list"

record ContactPicker =
  contact_array :: "nat list option"
  contacts :: Contacts

record ContactObject =
  center1 :: Vector3
  center2 :: Vector3

definition has_atomSet :: "Contacts \<Rightarrow> pick_id \<Rightarrow> bool" where
  "has_atomSet c k = (case k of None \<Rightarrow> False | Some n \<Rightarrow> n < length (atomSets c))"

text \<open>\<open>new Vector3(x, y, z)\<close> with arguments: the constructor's parameters default to
  \<open>0\<close>, so an \<open>undefined\<close> argument gives the component \<open>0\<close>.\<close>

fun default_zero :: "cell \<Rightarrow> cell" where
  "default_zero Undef = Num 0"
| "default_zero c = c"

definition new_Vector3 :: "cell \<Rightarrow> cell \<Rightarrow> cell \<Rightarrow> Vector3" where
  "new_Vector3 x y z = Vector3 (default_zero x) (default_zero y) (default_zero z)"

definition ContactPicker_getObject :: "ContactPicker \<Rightarrow> pick_id \<Rightarrow> js_error + ContactObject" where
  "ContactPicker_getObject this pid =
     (let idx = getIndex (contact_array this) pid;
          c = contacts this;
          k = index_get (index1 c) idx;
          l = index_get (index2 c) idx
      in if has_atomSet c k \<and> has_atomSet c l
         then Inr \<lparr>center1 = new_Vector3 (array_get (centers_x c) k) (array_get (centers_y c) k)
                                (array_get (centers_z c) k),
                   center2 = new_Vector3 (array_get (centers_x c) l) (array_get (centers_y c) l)
                                (array_get (centers_z c) l)\<rparr>
         else Inl TypeError)"

text \<open>\<open>new Vector3().addVectors(center1, center2).multiplyScalar(0.5)\<close>.\<close>

definition ContactPicker_getPosition :: "ContactPicker \<Rightarrow> pick_id \<Rightarrow> js_error + Vector3" where
  "ContactPicker_getPosition this pid =
     (case ContactPicker_getObject this pid of
        Inl e \<Rightarrow> Inl e
      | Inr ob \<Rightarrow> midpoint_js (center1 ob) (center2 ob))"

text \<open>A bond picker and a contact picker whose entity has the endpoints \<open>(0,0,0)\<close> and
  \<open>(2,0,0)\<close>.\<close>

definition example_bond_picker :: BondPicker where
  "example_bond_picker =
     \<lparr>bond_array = Some [0],
      getBondProxy = (\<lambda>i. \<lparr>atom1 = \<lparr>positionToVector3 = Vector3 (Num 0) (Num 0) (Num 0)\<rparr>,
                            atom2 = \<lparr>positionToVector3 = Vector3 (Num 2) (Num 0) (Num 0)\<rparr>\<rparr>)\<rparr>"

definition example_contact_picker :: ContactPicker where
  "example_contact_picker =
     \<lparr>contact_array = Some [0],
      contacts = \<lparr>centers_x = [Num 0, Num 2], centers_y = [Num 0, Num 0], centers_z = [Num 0, Num 0],
                  atomSets = [[0], [1]], index1 = [0], index2 = [1]\<rparr>\<rparr>"

text \<open>The data objects of the two scenarios of the specification: one sphere, and one
  cylinder between \<open>(0,0,0)\<close> and \<open>(2,0,0)\<close>.\<close>

definition sphere_data :: shape_data where
  "sphere_data =
     [(''position'', ArrayElm [Num 1, Num 2, Num 3]),
      (''color'', ArrayElm [Num 0, Num 1, Num 0]),
      (''radius'', ScalarElm (Num 2))]"

definition cylinder_data :: shape_data where
  "cylinder_data =
     [(''position1'', ArrayElm [Num 0, Num 0, Num 0]),
      (''position2'', ArrayElm [Num 2, Num 0, Num 0]),
      (''color'', ArrayElm [Num 1, Num 0, Num 0]),
      (''radius'', ScalarElm (Num 1))]"

definition sphere_shape :: "string \<Rightarrow> Shape" where
  "sphere_shape nm = (new_Shape nm)
     \<lparr>primitiveData := (primitiveData (new_Shape nm))
        (''spherePosition'' \<mapsto> [Num 1, Num 2, Num 3],
         ''sphereColor'' \<mapsto> [Num 0, Num 1, Num 0],
         ''sphereRadius'' \<mapsto> [Num 2],
         ''sphereName'' \<mapsto> [Undef]),
      boundingBox := [Vector3 (Num 1) (Num 2) (Num 3)]\<rparr>"

definition cylinder_shape :: "string \<Rightarrow> Shape" where
  "cylinder_shape nm = (new_Shape nm)
     \<lparr>primitiveData := (primitiveData (new_Shape nm))
        (''cylinderPosition1'' \<mapsto> [Num 0, Num 0, Num 0],
         ''cylinderPosition2'' \<mapsto> [Num 2, Num 0, Num 0],
         ''cylinderColor'' \<mapsto> [Num 1, Num 0, Num 0],
         ''cylinderRadius'' \<mapsto> [Num 1],
         ''cylinderName'' \<mapsto> [Undef]),
      boundingBox := [Vector3 (Num 0) (Num 0) (Num 0), Vector3 (Num 2) (Num 0) (Num 0)]\<rparr>"

section \<open>Representation: parameter and lifecycle engine (src/representation/representation.ts)\<close>

subsection \<open>Values\<close>

text \<open>
  The metadata object a parameter name carries in \<open>this.parameters\<close>. Of its properties,
  \<open>setParameters\<close> reads \<open>int\<close>, \<open>float\<close>, \<open>buffer\<close> (absent, \<open>true\<close>, or the name
  of the buffer parameter it maps to), \<open>update\<close> (absent, or the attribute to mark) and
  \<open>rebuild\<close> (absent, the marker \<open>'impostor'\<close>, or another truthy value such as \<open>true\<close>).
\<close>

datatype buffer_flag = NoBuffer | BufferOwnName | BufferAlias string

datatype rebuild_flag = NoRebuild | RebuildAlways | RebuildImpostor

record meta =
  meta_int :: bool
  meta_float :: bool
  meta_buffer :: buffer_flag
  meta_update :: "string option"
  meta_rebuild :: rebuild_flag

text \<open>
  The JavaScript values a parameter can take: \<open>undefined\<close>, a boolean, a number (a real
  or \<open>NaN\<close>), a string, an object with identity that exposes \<open>equals\<close>, \<open>copy\<close> and
  \<open>set\<close> (a three.js vector, colour or matrix: its reference and its components), or a
  metadata object (its reference and its flags). \<open>null\<close> is not modelled: the code would
  raise on reading a property of it.
\<close>

datatype jsval =
    JUndefined
  | JBool bool
  | JNum real
  | JNaN
  | JStr string
  | JObj nat "cell list"
  | JMeta nat meta

text \<open>A plain object: its properties in insertion order. The argument \<open>updateWhat\<close>
  of \<open>build\<close> and \<open>make\<close> is either falsy (\<open>None\<close>: \<open>undefined\<close> or \<open>false\<close>) or an
  object of attribute marks, which is truthy even when empty.\<close>

type_synonym obj = "(string \<times> jsval) list"

type_synonym what_arg = "obj option"

fun truthy :: "jsval \<Rightarrow> bool" where
  "truthy JUndefined = False"
| "truthy (JBool b) = b"
| "truthy (JNum r) = (r \<noteq> 0)"
| "truthy JNaN = False"
| "truthy (JStr s) = (s \<noteq> [])"
| "truthy (JObj i xs) = True"
| "truthy (JMeta i m) = True"

text \<open>Reading a property: a missing one reads \<open>undefined\<close>. \<open>Object.assign\<close> writes
  the source's properties into the target, in order.\<close>

definition obj_get :: "obj \<Rightarrow> string \<Rightarrow> jsval" where
  "obj_get ob k = (case map_of ob k of None \<Rightarrow> JUndefined | Some v \<Rightarrow> v)"

definition assign :: "obj \<Rightarrow> obj \<Rightarrow> obj" where
  "assign target source = fold (\<lambda>(k, v) t. AList.update k v t) source target"

subsection \<open>Collaborators\<close>

text \<open>
  Modelled from the spec: the task counter (\<open>utils/counter\<close>), the coalescing queue
  (\<open>utils/queue\<close>), the buffers and the viewer are not among the sources. The counter
  holds a count that \<open>change(delta)\<close> adds to (\<open>increment\<close> and \<open>decrement\<close> are
  \<open>change(1)\<close> and \<open>change(-1)\<close>) and can be disposed. The queue holds the jobs pushed
  and not yet started: \<open>push\<close> appends, \<open>length\<close> counts them, \<open>kill\<close> drops them. A
  buffer has a visibility, the parameters set on it, and can be disposed. The viewer
  counts render requests and keeps the buffers handed to \<open>remove\<close>.
\<close>

record Counter =
  count :: int
  counter_disposed :: bool

record Buffer =
  buffer_visible :: jsval
  buffer_params :: obj
  buffer_disposed :: bool

record Viewer =
  renderRequests :: nat
  removed :: "Buffer list"

subsection \<open>State\<close>

text \<open>
  The representation. \<open>parameters\<close> is \<open>this.parameters\<close>; \<open>props\<close> holds the
  properties read and written as \<open>this[name]\<close>, among them \<open>visible\<close>, \<open>lazy\<close>,
  \<open>opacity\<close> and \<open>disableImpostor\<close>; a name with no entry reads \<open>undefined\<close>.
  \<open>build\<close> and \<open>setVisibility\<close> read \<open>this.parameters.lazy\<close> and
  \<open>this.parameters.opacity\<close>, \<open>updateParameters\<close> reads \<open>this.lazy\<close> and
  \<open>this.opacity\<close>, as the source does.

  Three fields record what the code does without storing it: \<open>prepared\<close> holds the
  continuations handed to the preparation step \<open>this.prepare(_make)\<close> that have not run
  yet (the \<open>updateWhat\<close> and whether a callback was given), \<open>attached\<close> counts the runs
  of \<open>attach\<close>, and \<open>callbacks\<close> counts the calls of a caller's callback.
\<close>

record Representation =
  parameters :: "string \<Rightarrow> jsval"
  props :: "string \<Rightarrow> jsval"
  lazyProps_build :: bool
  lazyProps_bufferParams :: obj
  lazyProps_what :: obj
  tasks :: Counter
  bufferList :: "Buffer list"
  queue :: "what_arg list"
  disposed :: bool
  viewer :: Viewer
  prepared :: "(what_arg \<times> bool) list"
  attached :: nat
  callbacks :: nat

text \<open>The variables of the loop of \<open>setParameters\<close>: \<open>this\<close>, the argument \<open>p\<close> (the
  loop writes coerced values back into it), \<open>bufferParams\<close>, \<open>what\<close> and \<open>rebuild\<close>.\<close>

record param_loop =
  loop_props :: "string \<Rightarrow> jsval"
  loop_p :: obj
  loop_bufferParams :: obj
  loop_what :: obj
  loop_rebuild :: bool

text \<open>
  What the code takes from outside the class: the flag \<open>ExtensionFragDepth\<close> (impostor
  rendering is available), the names \<open>Object.keys(ColormakerRegistry.getSchemes())\<close>,
  three.js's \<open>new Color(value).getHex()\<close>, \<open>parseInt\<close> and \<open>parseFloat\<close>, the \<open>set\<close>
  method of a value object, whether the concrete class defines a preparation step
  \<open>prepare\<close>, and the buffers its \<open>create()\<close> appends (none in the base class).
\<close>

record Env =
  ExtensionFragDepth :: bool
  schemes :: "string list"
  colorHex :: "jsval \<Rightarrow> jsval"
  parseInt :: "jsval \<Rightarrow> jsval"
  parseFloat :: "jsval \<Rightarrow> jsval"
  value_set :: "cell list \<Rightarrow> jsval \<Rightarrow> cell list"
  has_prepare :: bool
  created :: "Buffer list"

subsection \<open>Primitive steps\<close>

definition tasks_change :: "int \<Rightarrow> Representation \<Rightarrow> Representation" where
  "tasks_change delta s = s\<lparr>tasks := (tasks s)\<lparr>count := count (tasks s) + delta\<rparr>\<rparr>"

definition tasks_increment :: "Representation \<Rightarrow> Representation" where
  "tasks_increment s = tasks_change 1 s"

definition tasks_decrement :: "Representation \<Rightarrow> Representation" where
  "tasks_decrement s = tasks_change (- 1) s"

definition tasks_dispose :: "Representation \<Rightarrow> Representation" where
  "tasks_dispose s = s\<lparr>tasks := (tasks s)\<lparr>counter_disposed := True\<rparr>\<rparr>"

definition queue_push :: "what_arg \<Rightarrow> Representation \<Rightarrow> Representation" where
  "queue_push job s = s\<lparr>queue := queue s @ [job]\<rparr>"

definition queue_kill :: "Representation \<Rightarrow> Representation" where
  "queue_kill s = s\<lparr>queue := []\<rparr>"

definition requestRender :: "Representation \<Rightarrow> Representation" where
  "requestRender s = s\<lparr>viewer := (viewer s)\<lparr>renderRequests := Suc (renderRequests (viewer s))\<rparr>\<rparr>"

definition Buffer_setVisibility :: "jsval \<Rightarrow> Buffer \<Rightarrow> Buffer" where
  "Buffer_setVisibility value b = b\<lparr>buffer_visible := value\<rparr>"

definition Buffer_setParameters :: "obj \<Rightarrow> Buffer \<Rightarrow> Buffer" where
  "Buffer_setParameters ps b = b\<lparr>buffer_params := assign (buffer_params b) ps\<rparr>"

definition Buffer_dispose :: "Buffer \<Rightarrow> Buffer" where
  "Buffer_dispose b = b\<lparr>buffer_disposed := True\<rparr>"

text \<open>\<open>if (callback) callback()\<close>.\<close>

definition call_callback :: "bool \<Rightarrow> Representation \<Rightarrow> Representation" where
  "call_callback cb s = (if cb then s\<lparr>callbacks := Suc (callbacks s)\<rparr> else s)"

definition create :: "Env \<Rightarrow> Representation \<Rightarrow> Representation" where
  "create env s = s\<lparr>bufferList := bufferList s @ created env\<rparr>"

definition clear :: "Representation \<Rightarrow> Representation" where
  "clear s =
     requestRender
       (s\<lparr>viewer := (viewer s)\<lparr>removed := removed (viewer s) @ map Buffer_dispose (bufferList s)\<rparr>,
          bufferList := []\<rparr>)"

text \<open>The guard of \<open>build\<close>:
  \<open>this.parameters.lazy && (!this.visible || !this.parameters.opacity)\<close>, and the guard of
  \<open>updateParameters\<close>:
  \<open>this.lazy && (!this.visible || !this.opacity) && bufferParams.opacity === undefined\<close>.\<close>

definition build_deferred :: "Representation \<Rightarrow> bool" where
  "build_deferred s =
     (truthy (parameters s ''lazy'') \<and>
      (\<not> truthy (props s ''visible'') \<or> \<not> truthy (parameters s ''opacity'')))"

definition update_deferred :: "Representation \<Rightarrow> obj \<Rightarrow> bool" where
  "update_deferred s bufferParams =
     (truthy (props s ''lazy'') \<and>
      (\<not> truthy (props s ''visible'') \<or> \<not> truthy (props s ''opacity'')) \<and>
      obj_get bufferParams ''opacity'' = JUndefined)"

text \<open>The end of \<open>setVisibility\<close>: the value goes to every owned buffer, and a render
  is requested unless suppressed.\<close>

definition finish_visibility :: "jsval \<Rightarrow> bool \<Rightarrow> Representation \<Rightarrow> Representation" where
  "finish_visibility value noRenderRequest s =
     (let s1 = s\<lparr>bufferList := map (Buffer_setVisibility value) (bufferList s)\<rparr>
      in if \<not> noRenderRequest then requestRender s1 else s1)"

subsection \<open>The lifecycle methods\<close>

text \<open>
  The methods call one another: \<open>build\<close> calls \<open>make\<close>, whose closure \<open>_make\<close>
  (\<open>make_inner\<close>) calls \<open>update\<close> or \<open>attach\<close>, which calls \<open>setVisibility\<close>, which
  calls \<open>build\<close> or \<open>updateParameters\<close>, which calls \<open>update\<close>, which calls \<open>build\<close>.
  \<open>create\<close>, \<open>attach\<close> and \<open>update\<close> are the base class's; a concrete class adds to
  them. The recursion ends because \<open>setVisibility\<close> takes the deferred work out of
  \<open>lazyProps\<close> before it calls on: the measure is the deferred work still pending, then
  the position of the method in the chain of calls.
\<close>

definition pending_work :: "Representation \<Rightarrow> nat" where
  "pending_work s =
     (if lazyProps_build s then 2 else 0) +
     (if lazyProps_bufferParams s \<noteq> [] \<or> lazyProps_what s \<noteq> [] then 1 else 0)"

definition lifecycle_measure where
  "lifecycle_measure =
     case_sum
       (case_sum
          (\<lambda>(env, s, updateWhat). (pending_work s, 5::nat))
          (case_sum
             (\<lambda>(env, s, updateWhat, callback). (pending_work s, if updateWhat = None then 4 else 9))
             (\<lambda>(env, s, updateWhat, callback). (pending_work s, if updateWhat = None then 3 else 8))))
       (case_sum
          (case_sum
             (\<lambda>(env, s, callback). (pending_work s, 2))
             (\<lambda>(env, s, value, noRenderRequest). (pending_work s, 1)))
          (case_sum
             (\<lambda>(env, s, bufferParams, what). (pending_work s, 7))
             (\<lambda>(env, s, what). (pending_work s, 6))))"

function
  build :: "Env \<Rightarrow> Representation \<Rightarrow> what_arg \<Rightarrow> Representation" and
  make :: "Env \<Rightarrow> Representation \<Rightarrow> what_arg \<Rightarrow> bool \<Rightarrow> Representation" and
  make_inner :: "Env \<Rightarrow> Representation \<Rightarrow> what_arg \<Rightarrow> bool \<Rightarrow> Representation" and
  attach :: "Env \<Rightarrow> Representation \<Rightarrow> (Representation \<Rightarrow> Representation) \<Rightarrow> Representation" and
  setVisibility :: "Env \<Rightarrow> Representation \<Rightarrow> jsval \<Rightarrow> bool \<Rightarrow> Representation" and
  updateParameters :: "Env \<Rightarrow> Representation \<Rightarrow> obj \<Rightarrow> obj \<Rightarrow> Representation" and
  update :: "Env \<Rightarrow> Representation \<Rightarrow> obj \<Rightarrow> Representation"
where
  "build env s updateWhat =
     (if build_deferred s then s\<lparr>lazyProps_build := True\<rparr>
      else if \<not> has_prepare env then make env (tasks_increment s) None False
      else queue_push updateWhat
             (if length (queue s) > 0
              then queue_kill (tasks_change (1 - int (length (queue s))) s)
              else tasks_increment s))"
| "make env s updateWhat callback =
     (if has_prepare env then s\<lparr>prepared := prepared s @ [(updateWhat, callback)]\<rparr>
      else make_inner env s updateWhat callback)"
| "make_inner env s updateWhat callback =
     (case updateWhat of
        Some what \<Rightarrow>
          call_callback callback (tasks_decrement (requestRender (update env s what)))
      | None \<Rightarrow>
          (let s1 = create env (clear s)
           in if \<not> disposed s1
              then attach env s1 (\<lambda>s2. call_callback callback (tasks_decrement s2))
              else s1))"
| "attach env s callback =
     callback (setVisibility env (s\<lparr>attached := Suc (attached s)\<rparr>) (props s ''visible'') False)"
| "setVisibility env s value noRenderRequest =
     (let s0 = s\<lparr>props := (props s)(''visible'' := value)\<rparr>
      in if truthy value \<and> truthy (parameters s0 ''opacity'')
         then if lazyProps_build s0
              then build env (s0\<lparr>lazyProps_build := False\<rparr>) None
              else if lazyProps_bufferParams s0 \<noteq> [] \<or> lazyProps_what s0 \<noteq> []
              then finish_visibility value noRenderRequest
                     (updateParameters env (s0\<lparr>lazyProps_bufferParams := [], lazyProps_what := []\<rparr>)
                        (lazyProps_bufferParams s0) (lazyProps_what s0))
              else finish_visibility value noRenderRequest s0
         else finish_visibility value noRenderRequest s0)"
| "updateParameters env s bufferParams what =
     (if update_deferred s bufferParams
      then s\<lparr>lazyProps_bufferParams := assign (lazyProps_bufferParams s) bufferParams,
             lazyProps_what := assign (lazyProps_what s) what\<rparr>
      else requestRender
             (let s1 = s\<lparr>bufferList := map (Buffer_setParameters bufferParams) (bufferList s)\<rparr>
              in if what \<noteq> [] then update env s1 what else s1))"
| "update env s what = build env s (Some what)"
  by pat_completeness auto

termination
  by (relation "inv_image (less_than <*lex*> less_than) lifecycle_measure")
     (auto simp add: lifecycle_measure_def pending_work_def tasks_increment_def tasks_change_def
        create_def clear_def requestRender_def)

declare build.simps [simp del] make.simps [simp del] make_inner.simps [simp del]
  attach.simps [simp del] setVisibility.simps [simp del] updateParameters.simps [simp del]
  update.simps [simp del]

text \<open>\<open>dispose\<close>, and the end of a preparation step: the oldest pending continuation
  runs.\<close>

definition dispose :: "Representation \<Rightarrow> Representation" where
  "dispose s = clear (tasks_dispose (queue_kill (s\<lparr>disposed := True\<rparr>)))"

definition prepare_done :: "Env \<Rightarrow> Representation \<Rightarrow> Representation" where
  "prepare_done env s =
     (case prepared s of
        [] \<Rightarrow> s
      | (updateWhat, callback) # rest \<Rightarrow> make_inner env (s\<lparr>prepared := rest\<rparr>) updateWhat callback)"

subsection \<open>setColor and setParameters\<close>

text \<open>\<open>toLowerCase\<close> on ASCII letters. \<open>names_scheme\<close> is the test
  \<open>typeof value === 'string' && types.includes(value.toLowerCase())\<close>.\<close>

definition toLowerChar :: "char \<Rightarrow> char" where
  "toLowerChar c =
     (case map_of (zip ''ABCDEFGHIJKLMNOPQRSTUVWXYZ'' ''abcdefghijklmnopqrstuvwxyz'') c of
        None \<Rightarrow> c
      | Some l \<Rightarrow> l)"

definition toLowerCase :: "string \<Rightarrow> string" where
  "toLowerCase s = map toLowerChar s"

definition names_scheme :: "Env \<Rightarrow> jsval \<Rightarrow> bool" where
  "names_scheme env value =
     (case value of JStr v \<Rightarrow> toLowerCase v \<in> set (schemes env) | _ \<Rightarrow> False)"

text \<open>\<open>setColor (value, p)\<close> with a target \<open>p\<close>: the two branches \<open>if (p)\<close>.\<close>

definition setColor_target :: "Env \<Rightarrow> jsval \<Rightarrow> obj \<Rightarrow> obj" where
  "setColor_target env value p =
     (if names_scheme env value then AList.update ''colorScheme'' value p
      else if value \<noteq> JUndefined
      then AList.update ''colorValue'' (colorHex env value)
             (AList.update ''colorScheme'' (JStr ''uniform'') p)
      else p)"

text \<open>Reading the flags of \<open>tp[name]\<close>: a value that is not a metadata object has none
  of these properties.\<close>

definition no_meta :: meta where
  "no_meta = \<lparr>meta_int = False, meta_float = False, meta_buffer = NoBuffer, meta_update = None,
              meta_rebuild = NoRebuild\<rparr>"

definition meta_of :: "jsval \<Rightarrow> meta" where
  "meta_of v = (case v of JMeta i m \<Rightarrow> m | _ \<Rightarrow> no_meta)"

text \<open>\<open>===\<close>: primitives by value (\<open>NaN\<close> differs from itself), objects by reference.
  \<open>equals\<close> of a value object compares the components with \<open>===\<close>.\<close>

definition cell_strict_eq :: "cell \<Rightarrow> cell \<Rightarrow> bool" where
  "cell_strict_eq a b = (a = b \<and> a \<noteq> NaN)"

fun strict_eq :: "jsval \<Rightarrow> jsval \<Rightarrow> bool" where
  "strict_eq JUndefined JUndefined = True"
| "strict_eq (JBool a) (JBool b) = (a = b)"
| "strict_eq (JNum a) (JNum b) = (a = b)"
| "strict_eq (JStr a) (JStr b) = (a = b)"
| "strict_eq (JObj i xs) (JObj j ys) = (i = j)"
| "strict_eq (JMeta i m) (JMeta j n) = (i = j)"
| "strict_eq a b = False"

fun has_equals :: "jsval \<Rightarrow> bool" where
  "has_equals (JObj i xs) = True"
| "has_equals v = False"

fun js_equals :: "jsval \<Rightarrow> jsval \<Rightarrow> bool" where
  "js_equals (JObj i xs) (JObj j ys) = list_all2 cell_strict_eq xs ys"
| "js_equals a b = False"

text \<open>Committing a value: \<open>this[name].copy(p[name])\<close> when both expose \<open>copy\<close>,
  \<open>this[name].set(p[name])\<close> when the current value exposes \<open>set\<close>, otherwise
  \<open>this[name] = p[name]\<close>.\<close>

fun commit :: "Env \<Rightarrow> jsval \<Rightarrow> jsval \<Rightarrow> jsval" where
  "commit env (JObj i xs) (JObj j ys) = JObj i ys"
| "commit env (JObj i xs) new = JObj i (value_set env xs new)"
| "commit env cur new = new"

text \<open>The test under the comment \<open>no value change\<close>:
  \<open>p[name] === this[name] && (!p[name].equals || p[name].equals(this[name]))\<close>.\<close>

definition unchanged :: "jsval \<Rightarrow> jsval \<Rightarrow> bool" where
  "unchanged new cur = (strict_eq new cur \<and> (\<not> has_equals new \<or> js_equals new cur))"

text \<open>The three effects of a changed parameter: staging a buffer parameter, marking an
  attribute for update, and the test \<open>tp[name].rebuild && !(tp[name].rebuild === 'impostor'
  && ExtensionFragDepth && !this.disableImpostor)\<close>.\<close>

definition stage_buffer :: "meta \<Rightarrow> string \<Rightarrow> jsval \<Rightarrow> obj \<Rightarrow> obj" where
  "stage_buffer m name v bufferParams =
     (case meta_buffer m of
        NoBuffer \<Rightarrow> bufferParams
      | BufferOwnName \<Rightarrow> AList.update name v bufferParams
      | BufferAlias alias \<Rightarrow> AList.update alias v bufferParams)"

definition mark_update :: "meta \<Rightarrow> obj \<Rightarrow> obj" where
  "mark_update m what =
     (case meta_update m of None \<Rightarrow> what | Some attr \<Rightarrow> AList.update attr (JBool True) what)"

definition escalates :: "Env \<Rightarrow> meta \<Rightarrow> jsval \<Rightarrow> bool" where
  "escalates env m disableImpostor =
     (meta_rebuild m \<noteq> NoRebuild \<and>
      \<not> (meta_rebuild m = RebuildImpostor \<and> ExtensionFragDepth env \<and> \<not> truthy disableImpostor))"

text \<open>\<open>if (tp[name].int) p[name] = parseInt(p[name])\<close> and the same for \<open>float\<close>.\<close>

definition coerce :: "Env \<Rightarrow> meta \<Rightarrow> jsval \<Rightarrow> jsval" where
  "coerce env m v =
     (let v1 = (if meta_int m then parseInt env v else v)
      in if meta_float m then parseFloat env v1 else v1)"

text \<open>One round of the loop \<open>for (let name in p)\<close>.\<close>

definition param_step :: "Env \<Rightarrow> (string \<Rightarrow> jsval) \<Rightarrow> string \<Rightarrow> param_loop \<Rightarrow> param_loop" where
  "param_step env tp name st =
     (if obj_get (loop_p st) name = JUndefined then st
      else if tp name = JUndefined then st
      else
        (let m = meta_of (tp name);
             v = coerce env m (obj_get (loop_p st) name);
             st1 = st\<lparr>loop_p := AList.update name v (loop_p st)\<rparr>
         in if unchanged v (loop_props st1 name) then st1
            else
              (let this1 = (loop_props st1)(name := commit env (loop_props st1 name) v)
               in st1\<lparr>loop_props := this1,
                      loop_bufferParams := stage_buffer m name v (loop_bufferParams st1),
                      loop_what := mark_update m (loop_what st1),
                      loop_rebuild := (loop_rebuild st1 \<or> escalates env m (this1 ''disableImpostor''))\<rparr>)))"

text \<open>The opening special case of \<open>setParameters\<close>: a call that supplies \<open>opacity\<close>
  while the current opacity is falsy takes over the lazily deferred work.\<close>

definition flush_deferred ::
  "Representation \<Rightarrow> obj \<Rightarrow> obj \<Rightarrow> bool \<Rightarrow> Representation \<times> obj \<times> obj \<times> bool" where
  "flush_deferred s p what rebuild =
     (if \<not> truthy (parameters s ''opacity'') \<and> obj_get p ''opacity'' \<noteq> JUndefined
      then if lazyProps_build s
           then (s\<lparr>lazyProps_build := False\<rparr>, [], what, True)
           else (s\<lparr>lazyProps_bufferParams := [], lazyProps_what := []\<rparr>,
                 assign [] (lazyProps_bufferParams s), assign what (lazyProps_what s), rebuild)
      else (s, [], what, rebuild))"

text \<open>Everything \<open>setParameters\<close> does before its final \<open>if (rebuild)\<close>: the special
  case, \<open>setColor(p.color, p)\<close>, and the loop over the names of \<open>p\<close>.\<close>

definition diff_parameters ::
  "Env \<Rightarrow> Representation \<Rightarrow> obj \<Rightarrow> obj \<Rightarrow> bool \<Rightarrow> Representation \<times> param_loop" where
  "diff_parameters env s p what rebuild =
     (case flush_deferred s p what rebuild of
        (s0, bufferParams0, what0, rebuild0) \<Rightarrow>
          (let p1 = setColor_target env (obj_get p ''color'') p;
               st = fold (param_step env (parameters s0)) (map fst p1)
                      \<lparr>loop_props = props s0, loop_p = p1, loop_bufferParams = bufferParams0,
                       loop_what = what0, loop_rebuild = rebuild0\<rparr>
           in (s0\<lparr>props := loop_props st\<rparr>, st)))"

definition setParameters :: "Env \<Rightarrow> Representation \<Rightarrow> obj \<Rightarrow> obj \<Rightarrow> bool \<Rightarrow> Representation" where
  "setParameters env s p what rebuild =
     (case diff_parameters env s p what rebuild of
        (s1, st) \<Rightarrow>
          if loop_rebuild st then build env s1 None
          else updateParameters env s1 (loop_bufferParams st) (loop_what st))"


subsection \<open>Concrete inputs\<close>

text \<open>The metadata literals that \<open>init\<close> declares for the common parameters
  (\<open>type\<close>, \<open>min\<close> and \<open>max\<close> play no part in \<open>setParameters\<close>), and the one the
  clipping centre carries in the concrete representations.\<close>

definition sphereDetail_meta :: meta where
  "sphereDetail_meta = no_meta\<lparr>meta_rebuild := RebuildImpostor\<rparr>"

definition radialSegments_meta :: meta where
  "radialSegments_meta = no_meta\<lparr>meta_rebuild := RebuildImpostor\<rparr>"

definition openEnded_meta :: meta where
  "openEnded_meta = no_meta\<lparr>meta_rebuild := RebuildImpostor, meta_buffer := BufferOwnName\<rparr>"

definition disableImpostor_meta :: meta where
  "disableImpostor_meta = no_meta\<lparr>meta_rebuild := RebuildAlways\<rparr>"

definition clipCenter_meta :: meta where
  "clipCenter_meta = no_meta\<lparr>meta_buffer := BufferOwnName\<rparr>"

text \<open>The block of \<open>init\<close> under \<open>handle common parameters when applicable\<close>: each of the
  four names that the concrete class has declared (its entry is truthy) gets its
  metadata literal, a fresh object; \<open>i\<close> is the first of four unused references.\<close>

definition init_metadata :: "nat \<Rightarrow> (string \<Rightarrow> jsval) \<Rightarrow> (string \<Rightarrow> jsval)" where
  "init_metadata i tp =
     (let tp1 = (if truthy (tp ''sphereDetail'')
                 then tp(''sphereDetail'' := JMeta i sphereDetail_meta) else tp);
          tp2 = (if truthy (tp1 ''radialSegments'')
                 then tp1(''radialSegments'' := JMeta (i + 1) radialSegments_meta) else tp1);
          tp3 = (if truthy (tp2 ''openEnded'')
                 then tp2(''openEnded'' := JMeta (i + 2) openEnded_meta) else tp2)
      in if truthy (tp3 ''disableImpostor'')
         then tp3(''disableImpostor'' := JMeta (i + 3) disableImpostor_meta) else tp3)"

text \<open>Concrete inputs: an environment whose representation class builds synchronously
  and creates one buffer, the same with a preparation step, and a lazy, invisible
  representation with one buffer.\<close>

definition new_Buffer :: Buffer where
  "new_Buffer = \<lparr>buffer_visible = JBool True, buffer_params = [], buffer_disposed = False\<rparr>"

definition old_Buffer :: Buffer where
  "old_Buffer = \<lparr>buffer_visible = JBool False, buffer_params = [], buffer_disposed = False\<rparr>"

definition sync_env :: Env where
  "sync_env =
     \<lparr>ExtensionFragDepth = True, schemes = [''uniform'', ''element''],
      colorHex = (\<lambda>v. if v = JStr ''red'' then JNum 16711680 else JNaN),
      parseInt = (\<lambda>v. v), parseFloat = (\<lambda>v. v), value_set = (\<lambda>xs v. xs),
      has_prepare = False, created = [new_Buffer]\<rparr>"

definition no_impostor_env :: Env where
  "no_impostor_env = sync_env\<lparr>ExtensionFragDepth := False\<rparr>"

definition async_env :: Env where
  "async_env = sync_env\<lparr>has_prepare := True\<rparr>"

definition lazy_rep :: Representation where
  "lazy_rep =
     \<lparr>parameters = (\<lambda>k. JUndefined)
        (''lazy'' := JBool True, ''opacity'' := JNum 1,
         ''sphereDetail'' := JMeta 1 sphereDetail_meta,
         ''disableImpostor'' := JMeta 2 disableImpostor_meta,
         ''clipCenter'' := JMeta 3 clipCenter_meta),
      props = (\<lambda>k. JUndefined)
        (''visible'' := JBool False, ''lazy'' := JBool True, ''opacity'' := JNum 1,
         ''sphereDetail'' := JNum 1, ''disableImpostor'' := JBool False,
         ''clipCenter'' := JObj 10 [Num 0, Num 0, Num 0]),
      lazyProps_build = False, lazyProps_bufferParams = [], lazyProps_what = [],
      tasks = \<lparr>count = 0, counter_disposed = False\<rparr>,
      bufferList = [old_Buffer], queue = [], disposed = False,
      viewer = \<lparr>renderRequests = 0, removed = []\<rparr>,
      prepared = [], attached = 0, callbacks = 0\<rparr>"

definition visible_rep :: Representation where
  "visible_rep = lazy_rep\<lparr>props := (props lazy_rep)(''visible'' := JBool True)\<rparr>"

text \<open>The representation after \<open>setParameters\<close> has committed the value \<open>v\<close> of the
  parameter \<open>name\<close> with metadata \<open>m\<close>.\<close>

definition committed :: "Env \<Rightarrow> Representation \<Rightarrow> string \<Rightarrow> meta \<Rightarrow> jsval \<Rightarrow> Representation" where
  "committed env s name m v =
     s\<lparr>props := (props s)(name := commit env (props s name) (coerce env m v))\<rparr>"

text \<open>\<open>builds\<close>: consecutive \<open>build\<close> calls, one per element of the list.\<close>

definition builds :: "Env \<Rightarrow> Representation \<Rightarrow> what_arg list \<Rightarrow> Representation" where
  "builds env s updateWhats = fold (\<lambda>updateWhat s'. build env s' updateWhat) updateWhats s"

subsection \<open>Predicates of the statements\<close>

text \<open>
  \<open>same_value new cur\<close>: the supplied value does not differ from the current one.
  Primitives are compared by value, value objects (vectors, matrices, colours) component
  by component whatever their identity, metadata objects by reference.
\<close>

fun same_value :: "jsval \<Rightarrow> jsval \<Rightarrow> bool" where
  "same_value (JObj i xs) (JObj j ys) = (xs = ys)"
| "same_value (JMeta i m) (JMeta j n) = (i = j)"
| "same_value a b = (a = b)"

text \<open>\<open>starts_with xs p\<close>: the list \<open>xs\<close> begins with \<open>p\<close>. It is used for the buffers
  handed to \<open>viewer.remove\<close>, a list that only grows.\<close>

definition starts_with :: "'a list \<Rightarrow> 'a list \<Rightarrow> bool" where
  "starts_with xs p = (take (length p) xs = p)"

text \<open>\<open>same_buffers cs bs\<close>: the buffers \<open>bs\<close> are the buffers \<open>cs\<close>, one by one, up to
  what \<open>buffer.setVisibility\<close> and \<open>buffer.setParameters\<close> change.\<close>

definition same_buffer :: "Buffer \<Rightarrow> Buffer \<Rightarrow> bool" where
  "same_buffer c b = (b\<lparr>buffer_visible := buffer_visible c, buffer_params := buffer_params c\<rparr> = c)"

definition same_buffers :: "Buffer list \<Rightarrow> Buffer list \<Rightarrow> bool" where
  "same_buffers cs bs = list_all2 same_buffer cs bs"

text \<open>\<open>removed_grows s t\<close>: every buffer handed to \<open>viewer.remove\<close> before is still
  recorded, in the same order. \<open>buffers_kept env s t\<close>: the owned buffers are those of
  before, or those that \<open>create()\<close> has made, up to visibility and parameters.\<close>

definition removed_grows :: "Representation \<Rightarrow> Representation \<Rightarrow> bool" where
  "removed_grows s t = starts_with (removed (viewer t)) (removed (viewer s))"

definition buffers_kept :: "Env \<Rightarrow> Representation \<Rightarrow> Representation \<Rightarrow> bool" where
  "buffers_kept env s t =
     (same_buffers (bufferList s) (bufferList t) \<or> same_buffers (created env) (bufferList t))"

text \<open>Two further concrete representations: \<open>lazy_rep\<close> after \<open>build()\<close> and
  \<open>updateParameters({}, {color: true})\<close>, both deferred while it is invisible; and
  \<open>visible_rep\<close> with one task counted and nothing queued (a task in flight).\<close>

definition pending_rep :: Representation where
  "pending_rep = lazy_rep\<lparr>lazyProps_build := True, lazyProps_what := [(''color'', JBool True)]\<rparr>"

definition busy_rep :: Representation where
  "busy_rep = visible_rep\<lparr>tasks := \<lparr>count = 1, counter_disposed = False\<rparr>\<rparr>"

section \<open>Facts\<close>

subsection \<open>Grid: facts\<close>

lemma new_Grid_wf: "grid_wf (new_Grid l w h c e)"
  by (simp add: grid_wf_def new_Grid_def)

lemma copy_duplicates_data:
  "length (data g) = length (data this) \<Longrightarrow>
   copy this g = Inr (this\<lparr>data := map (store_conv (dataCtor this)) (data g)\<rparr>, ReturnsUndefined)"
  by (simp add: copy_def typed_array_set_def)

text \<open>Grid addressing, the scenario of the specification: in a grid of dimensions
  \<open>(2,3,4)\<close> with one value per cell, \<open>index(1,2,3)\<close> is \<open>23\<close>, and \<open>set(1,2,3,42)\<close>
  followed by \<open>toArray(1,2,3,[],0)\<close> fills the array with \<open>[42]\<close>.\<close>

theorem grid_addressing_example:
  "index (new_Grid 2 3 4 Int32Array 1) 1 2 3 = 23 \<and>
   toArray (set_grid (new_Grid 2 3 4 Int32Array 1) 1 2 3 [42]) 1 2 3 [] 0 = [Some 42]"
  by (simp add: index_def new_Grid_def set_grid_def toArray_def typed_array_write_def
      typed_array_read_def js_array_write_def argument_def)

text \<open>In a grid with one value per cell, a value written at coordinates inside the
  backing array is read back, converted to the array's range.\<close>

lemma set_then_toArray:
  assumes "elemSize g = 1" "index g x y z < length (data g)"
  shows "toArray (set_grid g x y z [v]) x y z [] 0 = [Some (store_conv (dataCtor g) v)]"
  using assms
  by (simp add: set_grid_def toArray_def typed_array_write_def typed_array_read_def
      js_array_write_def argument_def index_def Let_def)

text \<open>
  C8. \<open>Grid.clone()\<close> is claimed to return a new grid that duplicates the original. The
  duplication does happen on a fresh grid, but \<open>clone\<close> returns the value of \<open>copy\<close>,
  which has no \<open>return\<close>: for every well-formed grid the call evaluates to \<open>undefined\<close>.
\<close>

theorem clone_returns_undefined:
  "grid_wf g \<Longrightarrow> clone g = Inr ReturnsUndefined"
  by (simp add: clone_def copy_def typed_array_set_def new_Grid_def grid_wf_def)

theorem clone_returns_undefined_witness:
  "grid_wf (new_Grid 2 3 4 Int32Array 1) \<and>
   clone (new_Grid 2 3 4 Int32Array 1) = Inr ReturnsUndefined"
  using clone_returns_undefined [OF new_Grid_wf, of 2 3 4 Int32Array 1] new_Grid_wf [of 2 3 4 Int32Array 1]
  by simp

subsection \<open>Primitive: facts\<close>

lemma sphere_keys:
  "getShapeKey SpherePrimitive ''position'' = Inr ''spherePosition''"
  "getShapeKey SpherePrimitive ''color'' = Inr ''sphereColor''"
  "getShapeKey SpherePrimitive ''radius'' = Inr ''sphereRadius''"
  "getShapeKey SpherePrimitive ''name'' = Inr ''sphereName''"
  by (simp_all add: getShapeKey_def toUpperChar_def)

lemma cylinder_keys:
  "getShapeKey CylinderPrimitive ''position1'' = Inr ''cylinderPosition1''"
  "getShapeKey CylinderPrimitive ''position2'' = Inr ''cylinderPosition2''"
  "getShapeKey CylinderPrimitive ''color'' = Inr ''cylinderColor''"
  "getShapeKey CylinderPrimitive ''radius'' = Inr ''cylinderRadius''"
  "getShapeKey CylinderPrimitive ''name'' = Inr ''cylinderName''"
  by (simp_all add: getShapeKey_def toUpperChar_def)

lemma sphere_shape_keys:
  "shape_keys SpherePrimitive = [''spherePosition'', ''sphereColor'', ''sphereRadius'', ''sphereName'']"
  by (simp add: shape_keys_def sphere_keys)

lemma cylinder_shape_keys:
  "shape_keys CylinderPrimitive =
     [''cylinderPosition1'', ''cylinderPosition2'', ''cylinderColor'', ''cylinderRadius'',
      ''cylinderName'']"
  by (simp add: shape_keys_def cylinder_keys cylinder_fields_def)

lemma new_Shape_sphere_columns:
  "k \<in> set (shape_keys SpherePrimitive) \<Longrightarrow> primitiveData (new_Shape nm) k = Some []"
  by (auto simp add: new_Shape_def all_primitives_def)

lemma new_Shape_cylinder_columns:
  "k \<in> set (shape_keys CylinderPrimitive) \<Longrightarrow> primitiveData (new_Shape nm) k = Some []"
  by (auto simp add: new_Shape_def all_primitives_def)

lemma new_Shape_sel:
  "shape_name (new_Shape nm) = nm"
  "boundingBox (new_Shape nm) = []"
  by (simp_all add: new_Shape_def)

text \<open>Appending the sphere of the scenario to a fresh shape fills one row of each sphere
  column, records no name, and expands the box by the centre.\<close>

lemma sphere_objectToShape:
  "objectToShape SpherePrimitive (new_Shape nm) sphere_data = Inr (sphere_shape nm)"
  by (simp add: objectToShape_def valueToShape_def sphere_keys new_Shape_sphere_columns
      sphere_shape_keys sphere_data_def property_def expand_position_def expandByPoint_def
      Vector3_fromArray_def array_get_def offset_plus_def sphere_shape_def new_Shape_sel)

lemma sphere_objectFromShape:
  "objectFromShape SpherePrimitive (sphere_shape nm) (Some 0) =
     Inr \<lparr>object_shape = sphere_shape nm,
          object_props =
            [(''name'', Cell (Str (''sphere: 0 ('' @ nm @ '')''))),
             (''position'', V3 (Vector3 (Num 1) (Num 2) (Num 3))),
             (''color'', Col (Color (Num 0) (Num 1) (Num 0))),
             (''radius'', Cell (Num 2))]\<rparr>"
  by (simp add: objectFromShape_def valueFromShape_def sphere_keys sphere_shape_def
      Vector3_fromArray_def Color_fromArray_def array_get_def offset_plus_def times3_def
      string_of_pid_def new_Shape_sel)

text \<open>
  C9. Sphere round trip: on a fresh shape (of any name), \<open>objectToShape\<close> with position
  \<open>[1,2,3]\<close>, colour \<open>[0,1,0]\<close> and radius \<open>2\<close> succeeds, and \<open>objectFromShape\<close> at the
  new instance's pid \<open>0\<close> returns an object whose position is the vector \<open>(1,2,3)\<close>, whose
  colour is \<open>(0,1,0)\<close> and whose radius is \<open>2\<close>.
\<close>

theorem sphere_round_trip:
  "\<exists>shape ob.
     objectToShape SpherePrimitive (new_Shape nm) sphere_data = Inr shape \<and>
     objectFromShape SpherePrimitive shape (Some 0) = Inr ob \<and>
     map_of (object_props ob) ''position'' = Some (V3 (Vector3 (Num 1) (Num 2) (Num 3))) \<and>
     map_of (object_props ob) ''color'' = Some (Col (Color (Num 0) (Num 1) (Num 0))) \<and>
     map_of (object_props ob) ''radius'' = Some (Cell (Num 2)) \<and>
     property sphere_data ''position'' = ArrayElm [Num 1, Num 2, Num 3] \<and>
     property sphere_data ''color'' = ArrayElm [Num 0, Num 1, Num 0] \<and>
     property sphere_data ''radius'' = ScalarElm (Num 2)"
proof (intro exI conjI)
  show "objectToShape SpherePrimitive (new_Shape nm) sphere_data = Inr (sphere_shape nm)"
    by (rule sphere_objectToShape)
  show "objectFromShape SpherePrimitive (sphere_shape nm) (Some 0) =
     Inr \<lparr>object_shape = sphere_shape nm,
          object_props =
            [(''name'', Cell (Str (''sphere: 0 ('' @ nm @ '')''))),
             (''position'', V3 (Vector3 (Num 1) (Num 2) (Num 3))),
             (''color'', Col (Color (Num 0) (Num 1) (Num 0))),
             (''radius'', Cell (Num 2))]\<rparr>"
    by (rule sphere_objectFromShape)
qed (simp_all add: sphere_data_def property_def)

theorem sphere_round_trip_witness:
  "\<exists>shape ob.
     objectToShape SpherePrimitive (new_Shape ''shape'') sphere_data = Inr shape \<and>
     objectFromShape SpherePrimitive shape (Some 0) = Inr ob \<and>
     map_of (object_props ob) ''position'' = Some (V3 (Vector3 (Num 1) (Num 2) (Num 3))) \<and>
     map_of (object_props ob) ''color'' = Some (Col (Color (Num 0) (Num 1) (Num 0))) \<and>
     map_of (object_props ob) ''radius'' = Some (Cell (Num 2))"
  using sphere_round_trip [of "''shape''"] by blast

subsection \<open>Picker: facts\<close>

lemma midpoint_js_Num:
  "midpoint_js (Vector3 (Num a1) (Num a2) (Num a3)) (Vector3 (Num b1) (Num b2) (Num b3)) =
     Inr (Vector3 (Num ((a1 + b1) / 2)) (Num ((a2 + b2) / 2)) (Num ((a3 + b3) / 2)))"
  by (simp add: midpoint_js_def)

text \<open>The bond picker returns the midpoint of the two atom positions, whatever the pid
  mapping resolves to; for the endpoints \<open>(0,0,0)\<close> and \<open>(2,0,0)\<close> it returns
  \<open>(1,0,0)\<close>.\<close>

theorem BondPicker_returns_midpoint:
  "positionToVector3 (atom1 (BondPicker_getObject this pid)) = Vector3 (Num a1) (Num a2) (Num a3) \<Longrightarrow>
   positionToVector3 (atom2 (BondPicker_getObject this pid)) = Vector3 (Num b1) (Num b2) (Num b3) \<Longrightarrow>
   BondPicker_getPosition this pid =
     Inr (Vector3 (Num ((a1 + b1) / 2)) (Num ((a2 + b2) / 2)) (Num ((a3 + b3) / 2)))"
  by (simp add: BondPicker_getPosition_def midpoint_js_Num)

theorem BondPicker_returns_midpoint_witness:
  "BondPicker_getPosition example_bond_picker (Some 0) = Inr (Vector3 (Num 1) (Num 0) (Num 0))"
proof -
  have h: "positionToVector3 (atom1 (BondPicker_getObject example_bond_picker (Some 0))) =
      Vector3 (Num 0) (Num 0) (Num 0)"
    "positionToVector3 (atom2 (BondPicker_getObject example_bond_picker (Some 0))) =
      Vector3 (Num 2) (Num 0) (Num 0)"
    by (simp_all add: BondPicker_getObject_def example_bond_picker_def)
  show ?thesis using BondPicker_returns_midpoint [OF h] by simp
qed

text \<open>The contact picker returns the midpoint of the two resolved centres; for the centres
  \<open>(0,0,0)\<close> and \<open>(2,0,0)\<close> it returns \<open>(1,0,0)\<close>.\<close>

theorem ContactPicker_returns_midpoint:
  "ContactPicker_getObject this pid =
     Inr \<lparr>center1 = Vector3 (Num a1) (Num a2) (Num a3), center2 = Vector3 (Num b1) (Num b2) (Num b3)\<rparr> \<Longrightarrow>
   ContactPicker_getPosition this pid =
     Inr (Vector3 (Num ((a1 + b1) / 2)) (Num ((a2 + b2) / 2)) (Num ((a3 + b3) / 2)))"
  by (simp add: ContactPicker_getPosition_def midpoint_js_Num)

theorem ContactPicker_returns_midpoint_witness:
  "ContactPicker_getObject example_contact_picker (Some 0) =
     Inr \<lparr>center1 = Vector3 (Num 0) (Num 0) (Num 0), center2 = Vector3 (Num 2) (Num 0) (Num 0)\<rparr> \<and>
   ContactPicker_getPosition example_contact_picker (Some 0) = Inr (Vector3 (Num 1) (Num 0) (Num 0))"
proof -
  have h: "ContactPicker_getObject example_contact_picker (Some 0) =
     Inr \<lparr>center1 = Vector3 (Num 0) (Num 0) (Num 0), center2 = Vector3 (Num 2) (Num 0) (Num 0)\<rparr>"
    by (simp add: ContactPicker_getObject_def example_contact_picker_def getIndex_def index_get_def
        has_atomSet_def array_get_def new_Vector3_def)
  show ?thesis using ContactPicker_returns_midpoint [OF h] h by simp
qed

lemma cylinder_objectToShape:
  "objectToShape CylinderPrimitive (new_Shape nm) cylinder_data = Inr (cylinder_shape nm)"
  by (simp add: objectToShape_def valueToShape_def cylinder_keys new_Shape_cylinder_columns
      cylinder_shape_keys cylinder_data_def cylinder_fields_def property_def expand_position12_def
      expandByPoint_def Vector3_fromArray_def array_get_def offset_plus_def cylinder_shape_def
      new_Shape_sel)

text \<open>The cylinder primitive itself, asked with the pid, returns the midpoint.\<close>

lemma cylinder_positionFromShape:
  "positionFromShape CylinderPrimitive (cylinder_shape nm) (Some 0) =
     Inr (V3 (Vector3 (Num 1) (Num 0) (Num 0)))"
  by (simp add: midpointFromShape_def valueFromShape_def cylinder_keys cylinder_shape_def
      cylinder_fields_def Vector3_fromArray_def array_get_def offset_plus_def times3_def
      midpoint_js_def)

text \<open>Every shape picker resolves every pid to \<open>undefined\<close>: its mapping is the empty
  array.\<close>

lemma ShapePicker_getIndex_undefined:
  "getIndex (picker_array (new_ShapePicker p shape)) pid = None"
  by (simp add: new_ShapePicker_def getIndex_def index_get_def split: option.splits)

text \<open>
  C10. A bond, cylinder or contact picker's \<open>_getPosition\<close> is claimed to return the
  midpoint of the two endpoints, \<open>(1,0,0)\<close> for \<open>(0,0,0)\<close> and \<open>(2,0,0)\<close>. For the
  cylinder picker over a shape holding exactly that cylinder, the call at pid \<open>0\<close> returns
  the vector \<open>(NaN, NaN, NaN)\<close>: the picker's mapping is the empty array, so the pid
  resolves to \<open>undefined\<close> before the primitive is asked.
\<close>

theorem CylinderPicker_getPosition_NaN:
  "objectToShape CylinderPrimitive (new_Shape nm) cylinder_data = Inr (cylinder_shape nm) \<and>
   ShapePicker_getPosition (CylinderPicker (cylinder_shape nm)) (Some 0) =
     Inr (V3 (Vector3 NaN NaN NaN)) \<and>
   positionFromShape CylinderPrimitive (cylinder_shape nm) (Some 0) =
     Inr (V3 (Vector3 (Num 1) (Num 0) (Num 0)))"
  by (simp add: cylinder_objectToShape cylinder_positionFromShape ShapePicker_getPosition_def
      CylinderPicker_def ShapePicker_getIndex_undefined)
     (simp add: new_ShapePicker_def midpointFromShape_def valueFromShape_def cylinder_keys
      cylinder_shape_def cylinder_fields_def Vector3_fromArray_def array_get_def offset_plus_def
      times3_def midpoint_js_def)

subsection \<open>Representation: induction over the lifecycle\<close>

text \<open>The induction rule of the seven mutually recursive methods, with the bindings of
  the method bodies unfolded: one case per method, with a hypothesis for each call it
  makes under the conditions that lead to the call.\<close>

lemma lifecycle_induct [case_names build make make_inner attach setVisibility updateParameters update]:
  assumes build:
    "\<And>env s updateWhat.
       (\<not> build_deferred s \<Longrightarrow> \<not> has_prepare env \<Longrightarrow> P2 env (tasks_increment s) None False) \<Longrightarrow>
       P1 env s updateWhat"
  and make:
    "\<And>env s updateWhat callback.
       (\<not> has_prepare env \<Longrightarrow> P3 env s updateWhat callback) \<Longrightarrow> P2 env s updateWhat callback"
  and make_inner:
    "\<And>env s updateWhat callback.
       (updateWhat = None \<Longrightarrow> \<not> disposed (create env (clear s)) \<Longrightarrow>
          P4 env (create env (clear s)) (\<lambda>s2. call_callback callback (tasks_decrement s2))) \<Longrightarrow>
       (\<And>what. updateWhat = Some what \<Longrightarrow> P7 env s what) \<Longrightarrow>
       P3 env s updateWhat callback"
  and attach:
    "\<And>env s callback.
       P5 env (s\<lparr>attached := Suc (attached s)\<rparr>) (props s ''visible'') False \<Longrightarrow> P4 env s callback"
  and setVisibility:
    "\<And>env s value noRenderRequest.
       (truthy value \<Longrightarrow> truthy (parameters s ''opacity'') \<Longrightarrow> lazyProps_build s \<Longrightarrow>
          P1 env (s\<lparr>props := (props s)(''visible'' := value), lazyProps_build := False\<rparr>) None) \<Longrightarrow>
       (truthy value \<Longrightarrow> truthy (parameters s ''opacity'') \<Longrightarrow> \<not> lazyProps_build s \<Longrightarrow>
          lazyProps_bufferParams s \<noteq> [] \<or> lazyProps_what s \<noteq> [] \<Longrightarrow>
          P6 env (s\<lparr>props := (props s)(''visible'' := value), lazyProps_bufferParams := [],
                     lazyProps_what := []\<rparr>)
            (lazyProps_bufferParams s) (lazyProps_what s)) \<Longrightarrow>
       P5 env s value noRenderRequest"
  and updateParameters:
    "\<And>env s bufferParams what.
       (\<not> update_deferred s bufferParams \<Longrightarrow> what \<noteq> [] \<Longrightarrow>
          P7 env (s\<lparr>bufferList := map (Buffer_setParameters bufferParams) (bufferList s)\<rparr>) what) \<Longrightarrow>
       P6 env s bufferParams what"
  and update:
    "\<And>env s what. P1 env s (Some what) \<Longrightarrow> P7 env s what"
  shows "P1 env1 s1 updateWhat1"
    and "P2 env2 s2 updateWhat2 callback2"
    and "P3 env3 s3 updateWhat3 callback3"
    and "P4 env4 s4 k4"
    and "P5 env5 s5 value5 noRenderRequest5"
    and "P6 env6 s6 bufferParams6 what6"
    and "P7 env7 s7 what7"
proof (induction env1 s1 updateWhat1 and env2 s2 updateWhat2 callback2 and env3 s3 updateWhat3 callback3
    and env4 s4 k4 and env5 s5 value5 noRenderRequest5 and env6 s6 bufferParams6 what6
    and env7 s7 what7
    rule: build_make_make_inner_attach_setVisibility_updateParameters_update.induct)
  case (1 env s updateWhat)
  show ?case by (rule build) (rule 1)
next
  case (2 env s updateWhat callback)
  show ?case by (rule make) (rule 2)
next
  case (3 env s updateWhat callback)
  show ?case
  proof (rule make_inner)
    assume "updateWhat = None" "\<not> disposed (create env (clear s))"
    then show "P4 env (create env (clear s)) (\<lambda>s2. call_callback callback (tasks_decrement s2))"
      by (rule 3(1) [OF _ refl])
  next
    fix what assume "updateWhat = Some what"
    then show "P7 env s what" by (rule 3(2))
  qed
next
  case (4 env s callback)
  show ?case by (rule attach) (rule 4)
next
  case (5 env s "value" noRenderRequest)
  show ?case
  proof (rule setVisibility)
    assume "truthy value" "truthy (parameters s ''opacity'')" "lazyProps_build s"
    then show "P1 env (s\<lparr>props := (props s)(''visible'' := value), lazyProps_build := False\<rparr>) None"
      using 5(1) [OF refl] by simp
  next
    assume "truthy value" "truthy (parameters s ''opacity'')" "\<not> lazyProps_build s"
      "lazyProps_bufferParams s \<noteq> [] \<or> lazyProps_what s \<noteq> []"
    then show "P6 env (s\<lparr>props := (props s)(''visible'' := value), lazyProps_bufferParams := [],
                     lazyProps_what := []\<rparr>)
            (lazyProps_bufferParams s) (lazyProps_what s)"
      using 5(2) [OF refl] by simp
  qed
next
  case (6 env s bufferParams what)
  show ?case
  proof (rule updateParameters)
    assume "\<not> update_deferred s bufferParams" "what \<noteq> []"
    then show "P7 env (s\<lparr>bufferList := map (Buffer_setParameters bufferParams) (bufferList s)\<rparr>) what"
      by (rule 6 [OF _ refl])
  qed
next
  case (7 env s what)
  show ?case by (rule update) (rule 7)
qed

definition awake :: "Representation \<Rightarrow> bool" where
  "awake s = (truthy (props s ''visible'') \<and> truthy (parameters s ''opacity''))"

lemma awake_not_deferred: "awake s \<Longrightarrow> \<not> build_deferred s"
  by (auto simp add: awake_def build_deferred_def)

lemma awake_upd [simp]:
  "awake (s\<lparr>lazyProps_build := b\<rparr>) = awake s"
  "awake (s\<lparr>bufferList := bl\<rparr>) = awake s"
  "awake (s\<lparr>attached := n\<rparr>) = awake s"
  "awake (s\<lparr>prepared := pr\<rparr>) = awake s"
  "awake (s\<lparr>lazyProps_bufferParams := bp\<rparr>) = awake s"
  "awake (s\<lparr>lazyProps_what := w\<rparr>) = awake s"
  "awake (tasks_change d s) = awake s"
  "awake (tasks_increment s) = awake s"
  "awake (tasks_decrement s) = awake s"
  "awake (requestRender s) = awake s"
  "awake (queue_push j s) = awake s"
  "awake (queue_kill s) = awake s"
  "awake (clear s) = awake s"
  "awake (create env s) = awake s"
  "awake (call_callback cb s) = awake s"
  "awake (finish_visibility v nr s) = awake s"
  by (simp_all add: awake_def tasks_change_def tasks_increment_def tasks_decrement_def
      requestRender_def queue_push_def queue_kill_def clear_def create_def call_callback_def
      finish_visibility_def Let_def)

lemma flag_upd [simp]:
  "lazyProps_build (tasks_change d s) = lazyProps_build s"
  "lazyProps_build (tasks_increment s) = lazyProps_build s"
  "lazyProps_build (tasks_decrement s) = lazyProps_build s"
  "lazyProps_build (requestRender s) = lazyProps_build s"
  "lazyProps_build (queue_push j s) = lazyProps_build s"
  "lazyProps_build (queue_kill s) = lazyProps_build s"
  "lazyProps_build (clear s) = lazyProps_build s"
  "lazyProps_build (create env s) = lazyProps_build s"
  "lazyProps_build (call_callback cb s) = lazyProps_build s"
  "lazyProps_build (finish_visibility v nr s) = lazyProps_build s"
  by (simp_all add: tasks_change_def tasks_increment_def tasks_decrement_def
      requestRender_def queue_push_def queue_kill_def clear_def create_def call_callback_def
      finish_visibility_def Let_def)

text \<open>\<open>stays_awake s t\<close>: from an awake state \<open>s\<close>, the state \<open>t\<close> is awake too and has no
  deferred build that \<open>s\<close> did not have.\<close>

definition stays_awake :: "Representation \<Rightarrow> Representation \<Rightarrow> bool" where
  "stays_awake s t = (awake s \<longrightarrow> awake t \<and> (lazyProps_build t \<longrightarrow> lazyProps_build s))"

lemma awake_keeps_flag:
  "stays_awake s1 (build env1 s1 updateWhat1)"
  "stays_awake s2 (make env2 s2 updateWhat2 callback2)"
  "stays_awake s3 (make_inner env3 s3 updateWhat3 callback3)"
  "(\<forall>t. stays_awake t (k4 t)) \<longrightarrow> stays_awake s4 (attach env4 s4 k4)"
  "truthy value5 \<longrightarrow> truthy (parameters s5 ''opacity'') \<longrightarrow>
     awake (setVisibility env5 s5 value5 noRenderRequest5) \<and>
     \<not> lazyProps_build (setVisibility env5 s5 value5 noRenderRequest5)"
  "stays_awake s6 (updateParameters env6 s6 bufferParams6 what6)"
  "stays_awake s7 (update env7 s7 what7)"
proof (induction env1 s1 updateWhat1 and env2 s2 updateWhat2 callback2 and env3 s3 updateWhat3 callback3
    and env4 s4 k4 and env5 s5 value5 noRenderRequest5 and env6 s6 bufferParams6 what6
    and env7 s7 what7 rule: lifecycle_induct)
  case (build env s updateWhat)
  show ?case
  proof (cases "awake s")
    case True
    then have nd: "\<not> build_deferred s" by (rule awake_not_deferred)
    show ?thesis
    proof (cases "has_prepare env")
      case True
      then show ?thesis
        using nd by (simp add: build.simps [of env s updateWhat] stays_awake_def)
    next
      case False
      from build [OF nd False] show ?thesis
        using nd False by (simp add: build.simps [of env s updateWhat] stays_awake_def)
    qed
  next
    case False
    then show ?thesis by (simp add: stays_awake_def)
  qed
next
  case (make env s updateWhat callback)
  show ?case
  proof (cases "has_prepare env")
    case True
    then show ?thesis by (simp add: make.simps [of env s updateWhat callback] stays_awake_def)
  next
    case False
    from make [OF False] show ?thesis
      using False by (simp add: make.simps [of env s updateWhat callback])
  qed
next
  case (make_inner env s updateWhat callback)
  show ?case
  proof (cases updateWhat)
    case None
    show ?thesis
    proof (cases "disposed (create env (clear s))")
      case True
      then show ?thesis
        using None by (simp add: make_inner.simps [of env s None callback] stays_awake_def)
    next
      case False
      have k: "\<forall>t. stays_awake t (call_callback callback (tasks_decrement t))"
        by (simp add: stays_awake_def)
      from make_inner(1) [OF None False] k
      have "stays_awake (create env (clear s))
              (attach env (create env (clear s)) (\<lambda>s2. call_callback callback (tasks_decrement s2)))"
        by blast
      then show ?thesis
        using None False by (simp add: make_inner.simps [of env s None callback] stays_awake_def)
    qed
  next
    case (Some what)
    from make_inner(2) [OF Some] show ?thesis
      using Some by (simp add: make_inner.simps [of env s "Some what" callback] stays_awake_def)
  qed
next
  case (attach env s callback)
  show ?case
  proof (intro impI)
    assume k: "\<forall>t. stays_awake t (callback t)"
    let ?v = "setVisibility env (s\<lparr>attached := Suc (attached s)\<rparr>) (props s ''visible'') False"
    show "stays_awake s (attach env s callback)"
    proof (cases "awake s")
      case True
      with attach have "awake ?v" "\<not> lazyProps_build ?v"
        by (simp_all add: awake_def)
      moreover from k have "stays_awake ?v (callback ?v)" by blast
      ultimately show ?thesis
        by (simp add: attach.simps [of env s callback] stays_awake_def)
    next
      case False
      then show ?thesis by (simp add: stays_awake_def)
    qed
  qed
next
  case (setVisibility env s "value" noRenderRequest)
  show ?case
  proof (intro impI)
    assume v: "truthy value" and o: "truthy (parameters s ''opacity'')"
    let ?s0 = "s\<lparr>props := (props s)(''visible'' := value)\<rparr>"
    have a0: "awake ?s0" using v o by (simp add: awake_def)
    show "awake (setVisibility env s value noRenderRequest) \<and>
          \<not> lazyProps_build (setVisibility env s value noRenderRequest)"
    proof (cases "lazyProps_build s")
      case True
      from setVisibility(1) [OF v o True] a0
      show ?thesis
        using v o True
        by (simp add: setVisibility.simps [of env s "value" noRenderRequest] Let_def stays_awake_def)
    next
      case False
      note nb = False
      show ?thesis
      proof (cases "lazyProps_bufferParams s \<noteq> [] \<or> lazyProps_what s \<noteq> []")
        case True
        from setVisibility(2) [OF v o nb True] a0
        show ?thesis
          using v o nb True
          by (simp add: setVisibility.simps [of env s "value" noRenderRequest] Let_def stays_awake_def)
      next
        case False
        then show ?thesis
          using v o nb a0
          by (simp add: setVisibility.simps [of env s "value" noRenderRequest] Let_def)
      qed
    qed
  qed
next
  case (updateParameters env s bufferParams what)
  show ?case
  proof (cases "update_deferred s bufferParams")
    case True
    then show ?thesis
      by (simp add: updateParameters.simps [of env s bufferParams what] stays_awake_def)
  next
    case False
    show ?thesis
    proof (cases "what = []")
      case True
      then show ?thesis
        using False
        by (simp add: updateParameters.simps [of env s bufferParams "[]"] stays_awake_def)
    next
      case w: False
      from updateParameters [OF False w] show ?thesis
        using False w
        by (simp add: updateParameters.simps [of env s bufferParams what] stays_awake_def)
    qed
  qed
next
  case (update env s what)
  then show ?case by (simp add: update.simps [of env s what])
qed

text \<open>A relation between the state before and after a call (it may depend on the
  environment) that is reflexive, transitive
  and holds across every primitive step holds across every method of the lifecycle. The
  step that marks an attach is only ever taken on a representation that is not disposed.\<close>

lemma lifecycle_steps:
  assumes refl: "\<And>env s. R env s s"
    and trans: "\<And>env s t u. R env s t \<Longrightarrow> R env t u \<Longrightarrow> R env s u"
    and defer_build: "\<And>env s. R env s (s\<lparr>lazyProps_build := True\<rparr>)"
    and inc: "\<And>env s. R env s (tasks_increment s)"
    and enqueue:
      "\<And>env s updateWhat.
         R env s (queue_push updateWhat
                (if length (queue s) > 0
                 then queue_kill (tasks_change (1 - int (length (queue s))) s)
                 else tasks_increment s))"
    and prepare: "\<And>env s c. R env s (s\<lparr>prepared := prepared s @ [c]\<rparr>)"
    and done_update: "\<And>env s callback. R env s (call_callback callback (tasks_decrement (requestRender s)))"
    and done_attach: "\<And>env s callback. R env s (call_callback callback (tasks_decrement s))"
    and recreate: "\<And>env s. R env s (create env (clear s))"
    and attach_step: "\<And>env s. \<not> disposed s \<Longrightarrow> R env s (s\<lparr>attached := Suc (attached s)\<rparr>)"
    and set_visible:
      "\<And>env s v. R env s (s\<lparr>props := (props s)(''visible'' := v)\<rparr>)"
    and undefer:
      "\<And>env s v. R env s (s\<lparr>props := (props s)(''visible'' := v), lazyProps_build := False\<rparr>)"
    and take_deferred:
      "\<And>env s v. R env s (s\<lparr>props := (props s)(''visible'' := v), lazyProps_bufferParams := [],
                      lazyProps_what := []\<rparr>)"
    and finish: "\<And>env s v nr. R env s (finish_visibility v nr s)"
    and defer_update: "\<And>env s bp w. R env s (s\<lparr>lazyProps_bufferParams := bp, lazyProps_what := w\<rparr>)"
    and buffers:
      "\<And>env s bp. R env s (s\<lparr>bufferList := map (Buffer_setParameters bp) (bufferList s)\<rparr>)"
    and render: "\<And>env s. R env s (requestRender s)"
  shows "R env1 s1 (build env1 s1 updateWhat1)"
    and "R env2 s2 (make env2 s2 updateWhat2 callback2)"
    and "R env3 s3 (make_inner env3 s3 updateWhat3 callback3)"
    and "\<not> disposed s4 \<longrightarrow> (\<forall>t. R env4 t (k4 t)) \<longrightarrow> R env4 s4 (attach env4 s4 k4)"
    and "R env5 s5 (setVisibility env5 s5 value5 noRenderRequest5)"
    and "R env6 s6 (updateParameters env6 s6 bufferParams6 what6)"
    and "R env7 s7 (update env7 s7 what7)"
proof (induction env1 s1 updateWhat1 and env2 s2 updateWhat2 callback2 and env3 s3 updateWhat3 callback3
    and env4 s4 k4 and env5 s5 value5 noRenderRequest5 and env6 s6 bufferParams6 what6
    and env7 s7 what7 rule: lifecycle_induct)
  case (build env s updateWhat)
  show ?case
  proof (cases "build_deferred s")
    case True
    then show ?thesis by (simp add: build.simps [of env s updateWhat] defer_build)
  next
    case nd: False
    show ?thesis
    proof (cases "has_prepare env")
      case True
      with nd have eq: "build env s updateWhat =
          queue_push updateWhat
            (if length (queue s) > 0
             then queue_kill (tasks_change (1 - int (length (queue s))) s)
             else tasks_increment s)"
        by (simp add: build.simps [of env s updateWhat])
      show ?thesis unfolding eq by (rule enqueue)
    next
      case False
      have "R env s (make env (tasks_increment s) None False)"
        by (rule trans [OF inc build [OF nd False]])
      then show ?thesis using nd False by (simp add: build.simps [of env s updateWhat])
    qed
  qed
next
  case (make env s updateWhat callback)
  show ?case
  proof (cases "has_prepare env")
    case True
    then show ?thesis by (simp add: make.simps [of env s updateWhat callback] prepare)
  next
    case False
    from make [OF False] show ?thesis
      using False by (simp add: make.simps [of env s updateWhat callback])
  qed
next
  case (make_inner env s updateWhat callback)
  show ?case
  proof (cases updateWhat)
    case None
    show ?thesis
    proof (cases "disposed (create env (clear s))")
      case True
      then show ?thesis
        using None by (simp add: make_inner.simps [of env s None callback] recreate)
    next
      case False
      have "R env (create env (clear s))
              (attach env (create env (clear s)) (\<lambda>s2. call_callback callback (tasks_decrement s2)))"
        using make_inner(1) [OF None False] False done_attach by blast
      then have "R env s (attach env (create env (clear s)) (\<lambda>s2. call_callback callback (tasks_decrement s2)))"
        by (rule trans [OF recreate])
      then show ?thesis
        using None False by (simp add: make_inner.simps [of env s None callback])
    qed
  next
    case (Some what)
    have "R env s (call_callback callback (tasks_decrement (requestRender (update env s what))))"
      by (rule trans [OF make_inner(2) [OF Some] done_update])
    then show ?thesis
      using Some by (simp add: make_inner.simps [of env s "Some what" callback])
  qed
next
  case (attach env s callback)
  show ?case
  proof (intro impI)
    assume nd: "\<not> disposed s" and k: "\<forall>t. R env t (callback t)"
    let ?v = "setVisibility env (s\<lparr>attached := Suc (attached s)\<rparr>) (props s ''visible'') False"
    have "R env s ?v" by (rule trans [OF attach_step [OF nd] attach])
    moreover have "R env ?v (callback ?v)" using k by blast
    ultimately have "R env s (callback ?v)" by (rule trans)
    then show "R env s (attach env s callback)" by (simp add: attach.simps [of env s callback])
  qed
next
  case (setVisibility env s "value" noRenderRequest)
  let ?s0 = "s\<lparr>props := (props s)(''visible'' := value)\<rparr>"
  show ?case
  proof (cases "truthy value \<and> truthy (parameters s ''opacity'')")
    case False
    have "R env s (finish_visibility value noRenderRequest ?s0)"
      by (rule trans [OF set_visible finish])
    then show ?thesis
      using False by (auto simp add: setVisibility.simps [of env s "value" noRenderRequest] Let_def)
  next
    case True
    then have v: "truthy value" and o: "truthy (parameters s ''opacity'')" by simp_all
    show ?thesis
    proof (cases "lazyProps_build s")
      case True
      have "R env s (build env (s\<lparr>props := (props s)(''visible'' := value), lazyProps_build := False\<rparr>) None)"
        by (rule trans [OF undefer setVisibility(1) [OF v o True]])
      then show ?thesis
        using v o True by (simp add: setVisibility.simps [of env s "value" noRenderRequest] Let_def)
    next
      case False
      note nb = False
      show ?thesis
      proof (cases "lazyProps_bufferParams s \<noteq> [] \<or> lazyProps_what s \<noteq> []")
        case True
        let ?u = "updateParameters env
                    (s\<lparr>props := (props s)(''visible'' := value), lazyProps_bufferParams := [],
                       lazyProps_what := []\<rparr>)
                    (lazyProps_bufferParams s) (lazyProps_what s)"
        have "R env s ?u" by (rule trans [OF take_deferred setVisibility(2) [OF v o nb True]])
        then have "R env s (finish_visibility value noRenderRequest ?u)"
          by (rule trans [OF _ finish])
        then show ?thesis
          using v o nb True
          by (simp add: setVisibility.simps [of env s "value" noRenderRequest] Let_def)
      next
        case False
        have "R env s (finish_visibility value noRenderRequest ?s0)"
          by (rule trans [OF set_visible finish])
        then show ?thesis
          using v o nb False
          by (simp add: setVisibility.simps [of env s "value" noRenderRequest] Let_def)
      qed
    qed
  qed
next
  case (updateParameters env s bufferParams what)
  let ?s1 = "s\<lparr>bufferList := map (Buffer_setParameters bufferParams) (bufferList s)\<rparr>"
  show ?case
  proof (cases "update_deferred s bufferParams")
    case True
    then show ?thesis
      by (simp add: updateParameters.simps [of env s bufferParams what] defer_update)
  next
    case False
    note nd = False
    show ?thesis
    proof (cases "what = []")
      case True
      have "R env s (requestRender ?s1)" by (rule trans [OF buffers render])
      then show ?thesis
        using nd True by (simp add: updateParameters.simps [of env s bufferParams "[]"])
    next
      case False
      have "R env s (update env ?s1 what)"
        by (rule trans [OF buffers updateParameters [OF nd False]])
      then have "R env s (requestRender (update env ?s1 what))"
        by (rule trans [OF _ render])
      then show ?thesis
        using nd False by (simp add: updateParameters.simps [of env s bufferParams what])
    qed
  qed
next
  case (update env s what)
  then show ?case by (simp add: update.simps [of env s what])
qed

lemma frame_simps [simp]:
  "disposed (tasks_change d s) = disposed s"
  "disposed (tasks_increment s) = disposed s"
  "disposed (tasks_decrement s) = disposed s"
  "disposed (tasks_dispose s) = disposed s"
  "disposed (requestRender s) = disposed s"
  "disposed (queue_push j s) = disposed s"
  "disposed (queue_kill s) = disposed s"
  "disposed (clear s) = disposed s"
  "disposed (create env s) = disposed s"
  "disposed (call_callback cb s) = disposed s"
  "disposed (finish_visibility v nr s) = disposed s"
  "attached (tasks_change d s) = attached s"
  "attached (tasks_increment s) = attached s"
  "attached (tasks_decrement s) = attached s"
  "attached (tasks_dispose s) = attached s"
  "attached (requestRender s) = attached s"
  "attached (queue_push j s) = attached s"
  "attached (queue_kill s) = attached s"
  "attached (clear s) = attached s"
  "attached (create env s) = attached s"
  "attached (call_callback cb s) = attached s"
  "attached (finish_visibility v nr s) = attached s"
  by (simp_all add: tasks_change_def tasks_increment_def tasks_decrement_def tasks_dispose_def
      requestRender_def queue_push_def queue_kill_def clear_def create_def call_callback_def
      finish_visibility_def Let_def)

lemma renders_simps [simp]:
  "renderRequests (viewer (tasks_change d s)) = renderRequests (viewer s)"
  "renderRequests (viewer (tasks_increment s)) = renderRequests (viewer s)"
  "renderRequests (viewer (tasks_decrement s)) = renderRequests (viewer s)"
  "renderRequests (viewer (requestRender s)) = Suc (renderRequests (viewer s))"
  "renderRequests (viewer (queue_push j s)) = renderRequests (viewer s)"
  "renderRequests (viewer (queue_kill s)) = renderRequests (viewer s)"
  "renderRequests (viewer (clear s)) = Suc (renderRequests (viewer s))"
  "renderRequests (viewer (create env s)) = renderRequests (viewer s)"
  "renderRequests (viewer (call_callback cb s)) = renderRequests (viewer s)"
  "renderRequests (viewer (finish_visibility v nr s)) =
     (if nr then renderRequests (viewer s) else Suc (renderRequests (viewer s)))"
  by (simp_all add: tasks_change_def tasks_increment_def tasks_decrement_def
      requestRender_def queue_push_def queue_kill_def clear_def create_def call_callback_def
      finish_visibility_def Let_def)

text \<open>\<open>no_attach s t\<close>: if \<open>s\<close> is disposed, so is \<open>t\<close>, and no attach step ran in between.\<close>

definition no_attach :: "Representation \<Rightarrow> Representation \<Rightarrow> bool" where
  "no_attach s t = (disposed s \<longrightarrow> disposed t \<and> attached t = attached s)"

lemma disposed_never_attaches:
  "no_attach s (build env s updateWhat)"
  "no_attach s (make env s updateWhat callback)"
  "no_attach s (make_inner env s updateWhat callback)"
  "no_attach s (setVisibility env s value noRenderRequest)"
  "no_attach s (updateParameters env s bufferParams what)"
  "no_attach s (update env s what)"
  by (rule lifecycle_steps [where R = "\<lambda>env. no_attach"]; simp add: no_attach_def)+

text \<open>\<open>renders_grow s t\<close>: render requests are only ever added.\<close>

definition renders_grow :: "Representation \<Rightarrow> Representation \<Rightarrow> bool" where
  "renders_grow s t = (renderRequests (viewer s) \<le> renderRequests (viewer t))"

lemma renders_only_grow:
  "renders_grow s (build env s updateWhat)"
  "renders_grow s (make env s updateWhat callback)"
  "renders_grow s (make_inner env s updateWhat callback)"
  "renders_grow s (setVisibility env s value noRenderRequest)"
  "renders_grow s (updateParameters env s bufferParams what)"
  "renders_grow s (update env s what)"
  by (rule lifecycle_steps [where R = "\<lambda>env. renders_grow"]; simp add: renders_grow_def)+

text \<open>The buffers handed to \<open>viewer.remove\<close> are never taken back, and the owned
  buffers are only ever replaced by created ones.\<close>

lemma starts_with_iff: "starts_with xs p \<longleftrightarrow> (\<exists>ys. xs = p @ ys)"
  unfolding starts_with_def by (metis append_eq_conv_conj append_take_drop_id)

lemma same_buffer_iff: "same_buffer c b \<longleftrightarrow> buffer_disposed b = buffer_disposed c"
  by (cases c; cases b) (auto simp add: same_buffer_def)

lemma same_buffers_refl: "same_buffers xs xs"
  by (simp add: same_buffers_def same_buffer_iff list_all2_same)

lemma same_buffers_trans: "same_buffers xs ys \<Longrightarrow> same_buffers ys zs \<Longrightarrow> same_buffers xs zs"
  unfolding same_buffers_def
  by (erule (1) list_all2_trans [rotated]) (simp add: same_buffer_iff)

lemma same_buffers_flags:
  "same_buffers cs bs = list_all2 (\<lambda>c b. buffer_disposed b = buffer_disposed c) cs bs"
proof -
  have "same_buffer = (\<lambda>c b. buffer_disposed b = buffer_disposed c)"
    by (intro ext) (rule same_buffer_iff)
  then show ?thesis by (simp add: same_buffers_def)
qed

lemma same_buffers_map:
  "same_buffers xs (map (Buffer_setVisibility v) ys) = same_buffers xs ys"
  "same_buffers xs (map (Buffer_setParameters bp) ys) = same_buffers xs ys"
  by (simp_all add: same_buffers_flags list_all2_map2 Buffer_setVisibility_def
      Buffer_setParameters_def)

lemma removed_simps:
  "removed (viewer (tasks_change d s)) = removed (viewer s)"
  "removed (viewer (tasks_increment s)) = removed (viewer s)"
  "removed (viewer (tasks_decrement s)) = removed (viewer s)"
  "removed (viewer (requestRender s)) = removed (viewer s)"
  "removed (viewer (queue_push j s)) = removed (viewer s)"
  "removed (viewer (queue_kill s)) = removed (viewer s)"
  "removed (viewer (clear s)) = removed (viewer s) @ map Buffer_dispose (bufferList s)"
  "removed (viewer (create env s)) = removed (viewer s)"
  "removed (viewer (call_callback cb s)) = removed (viewer s)"
  "removed (viewer (finish_visibility v nr s)) = removed (viewer s)"
  by (simp_all add: tasks_change_def tasks_increment_def tasks_decrement_def
      requestRender_def queue_push_def queue_kill_def clear_def create_def call_callback_def
      finish_visibility_def Let_def)

lemma buffers_simps:
  "bufferList (tasks_change d s) = bufferList s"
  "bufferList (tasks_increment s) = bufferList s"
  "bufferList (tasks_decrement s) = bufferList s"
  "bufferList (requestRender s) = bufferList s"
  "bufferList (queue_push j s) = bufferList s"
  "bufferList (queue_kill s) = bufferList s"
  "bufferList (clear s) = []"
  "bufferList (create env s) = bufferList s @ created env"
  "bufferList (call_callback cb s) = bufferList s"
  "bufferList (finish_visibility v nr s) = map (Buffer_setVisibility v) (bufferList s)"
  by (simp_all add: tasks_change_def tasks_increment_def tasks_decrement_def
      requestRender_def queue_push_def queue_kill_def clear_def create_def call_callback_def
      finish_visibility_def Let_def)

lemma removed_only_grows:
  "removed_grows s (build env s updateWhat)"
  "removed_grows s (make env s updateWhat callback)"
  "removed_grows s (make_inner env s updateWhat callback)"
  "removed_grows s (setVisibility env s value noRenderRequest)"
  "removed_grows s (updateParameters env s bufferParams what)"
  "removed_grows s (update env s what)"
  by (rule lifecycle_steps [where R = "\<lambda>env. removed_grows"];
      auto simp add: removed_grows_def removed_simps starts_with_iff)+

lemma buffers_are_kept:
  "buffers_kept env s (build env s updateWhat)"
  "buffers_kept env s (make env s updateWhat callback)"
  "buffers_kept env s (make_inner env s updateWhat callback)"
  "buffers_kept env s (setVisibility env s value noRenderRequest)"
  "buffers_kept env s (updateParameters env s bufferParams what)"
  "buffers_kept env s (update env s what)"
  by (rule lifecycle_steps [where R = buffers_kept];
      auto simp add: buffers_kept_def buffers_simps same_buffers_map same_buffers_refl
        intro: same_buffers_trans)+

subsection \<open>Single steps and the concrete inputs\<close>

lemma build_queued:
  "has_prepare env \<Longrightarrow> \<not> build_deferred s \<Longrightarrow>
   build env s updateWhat =
     queue_push updateWhat
       (if length (queue s) > 0
        then queue_kill (tasks_change (1 - int (length (queue s))) s)
        else tasks_increment s)"
  by (simp add: build.simps [of env s updateWhat])

lemma build_queued_effect:
  assumes "has_prepare env" "\<not> build_deferred s"
  shows "queue (build env s updateWhat) = [updateWhat]"
    and "count (tasks (build env s updateWhat)) = count (tasks s) - int (length (queue s)) + 1"
    and "\<not> build_deferred (build env s updateWhat)"
  using assms
  by (auto simp add: build_queued queue_push_def queue_kill_def tasks_change_def tasks_increment_def
      build_deferred_def)

lemma make_inner_disposed:
  "disposed s \<Longrightarrow> make_inner env s None callback = create env (clear s)"
  by (simp add: make_inner.simps [of env s None callback] Let_def)

lemma updateParameters_plain:
  "\<not> update_deferred s bufferParams \<Longrightarrow>
   updateParameters env s bufferParams [] =
     requestRender (s\<lparr>bufferList := map (Buffer_setParameters bufferParams) (bufferList s)\<rparr>)"
  by (simp add: updateParameters.simps [of env s bufferParams "[]"])

lemma visible_rep_facts:
  "parameters visible_rep ''sphereDetail'' = JMeta 1 sphereDetail_meta"
  "parameters visible_rep ''disableImpostor'' = JMeta 2 disableImpostor_meta"
  "parameters visible_rep ''clipCenter'' = JMeta 3 clipCenter_meta"
  "props visible_rep ''sphereDetail'' = JNum 1"
  "props visible_rep ''disableImpostor'' = JBool False"
  "props visible_rep ''clipCenter'' = JObj 10 [Num 0, Num 0, Num 0]"
  "props visible_rep ''visible'' = JBool True"
  "props visible_rep ''lazy'' = JBool True"
  "props visible_rep ''opacity'' = JNum 1"
  "parameters visible_rep ''lazy'' = JBool True"
  "parameters visible_rep ''opacity'' = JNum 1"
  "\<not> disposed visible_rep" "\<not> lazyProps_build visible_rep"
  "lazyProps_bufferParams visible_rep = []" "lazyProps_what visible_rep = []"
  "bufferList visible_rep = [old_Buffer]" "attached visible_rep = 0"
  "removed (viewer visible_rep) = []"
  by (simp_all add: visible_rep_def lazy_rep_def)

lemma env_facts:
  "coerce sync_env m v = v" "coerce no_impostor_env m v = v"
  "ExtensionFragDepth sync_env" "\<not> ExtensionFragDepth no_impostor_env"
  "\<not> has_prepare sync_env" "\<not> has_prepare no_impostor_env"
  "created sync_env = [new_Buffer]" "created no_impostor_env = [new_Buffer]"
  "coerce async_env m v = v" "has_prepare async_env"
  by (simp_all add: coerce_def sync_env_def no_impostor_env_def async_env_def Let_def)

lemma committed_sel:
  "props (committed env s name m v) = (props s)(name := commit env (props s name) (coerce env m v))"
  "parameters (committed env s name m v) = parameters s"
  "disposed (committed env s name m v) = disposed s"
  "lazyProps_build (committed env s name m v) = lazyProps_build s"
  "lazyProps_bufferParams (committed env s name m v) = lazyProps_bufferParams s"
  "lazyProps_what (committed env s name m v) = lazyProps_what s"
  "bufferList (committed env s name m v) = bufferList s"
  "attached (committed env s name m v) = attached s"
  "viewer (committed env s name m v) = viewer s"
  "queue (committed env s name m v) = queue s"
  by (simp_all add: committed_def)

lemma lazy_rep_facts:
  "parameters lazy_rep ''lazy'' = JBool True"
  "parameters lazy_rep ''opacity'' = JNum 1"
  "props lazy_rep ''visible'' = JBool False"
  "props lazy_rep ''lazy'' = JBool True"
  "props lazy_rep ''opacity'' = JNum 1"
  "\<not> disposed lazy_rep" "\<not> lazyProps_build lazy_rep"
  "lazyProps_bufferParams lazy_rep = []" "lazyProps_what lazy_rep = []"
  "bufferList lazy_rep = [old_Buffer]" "attached lazy_rep = 0"
  "removed (viewer lazy_rep) = []" "queue lazy_rep = []" "count (tasks lazy_rep) = 0"
  "parameters lazy_rep ''disableImpostor'' = JMeta 2 disableImpostor_meta"
  "props lazy_rep ''disableImpostor'' = JBool False"
  by (simp_all add: lazy_rep_def)

lemma build_deferred_lazy_rep: "build_deferred lazy_rep"
  by (simp add: build_deferred_def lazy_rep_facts)

subsection \<open>Lazy deferral\<close>

lemma build_deferred_eq:
  "build_deferred s \<Longrightarrow> build env s updateWhat = s\<lparr>lazyProps_build := True\<rparr>"
  by (simp add: build.simps [of env s updateWhat])

lemma setVisibility_pending_build:
  "lazyProps_build s \<Longrightarrow> truthy value \<Longrightarrow> truthy (parameters s ''opacity'') \<Longrightarrow>
   setVisibility env s value noRenderRequest =
     build env (s\<lparr>props := (props s)(''visible'' := value), lazyProps_build := False\<rparr>) None"
  by (simp add: setVisibility.simps [of env s "value" noRenderRequest] Let_def)

lemma updateParameters_no_what:
  "updateParameters env s bufferParams [] =
     (if update_deferred s bufferParams
      then s\<lparr>lazyProps_bufferParams := assign (lazyProps_bufferParams s) bufferParams\<rparr>
      else requestRender (s\<lparr>bufferList := map (Buffer_setParameters bufferParams) (bufferList s)\<rparr>))"
  by (simp add: updateParameters.simps [of env s bufferParams "[]"] assign_def)

lemma setVisibility_no_rebuild:
  assumes "\<not> lazyProps_build s" "lazyProps_what s = []"
  shows "attached (setVisibility env s v nr) = attached s"
    and "removed (viewer (setVisibility env s v nr)) = removed (viewer s)"
    and "same_buffers (bufferList s) (bufferList (setVisibility env s v nr))"
    and "list_all (\<lambda>b. buffer_visible b = v) (bufferList (setVisibility env s v nr))"
  using assms
  by (simp_all add: setVisibility.simps [of env s v nr] Let_def updateParameters_no_what
      removed_simps buffers_simps same_buffers_map same_buffers_refl list_all_iff
      Buffer_setVisibility_def requestRender_def)

lemma build_sync:
  "\<not> has_prepare env \<Longrightarrow> \<not> build_deferred s \<Longrightarrow>
   build env s updateWhat = make_inner env (tasks_increment s) None False"
  by (simp add: build.simps [of env s updateWhat] make.simps [of env "tasks_increment s" None False])

lemma make_inner_attaches:
  "\<not> disposed s \<Longrightarrow>
   make_inner env s None callback =
     call_callback callback
       (tasks_decrement
          (setVisibility env ((create env (clear s))\<lparr>attached := Suc (attached s)\<rparr>)
             (props s ''visible'') False))"
  by (simp add: make_inner.simps [of env s None callback] Let_def
      attach.simps [of env "create env (clear s)"])
     (simp add: create_def clear_def requestRender_def)

lemma build_sync_once:
  assumes "\<not> has_prepare env" "\<not> build_deferred s" "\<not> lazyProps_build s" "lazyProps_what s = []"
  shows "removed (viewer (build env s updateWhat)) =
           removed (viewer s) @ map Buffer_dispose (bufferList s)"
    and "attached (build env s updateWhat) = (if disposed s then attached s else Suc (attached s))"
    and "same_buffers (created env) (bufferList (build env s updateWhat))"
    and "\<not> disposed s \<longrightarrow>
           list_all (\<lambda>b. buffer_visible b = props s ''visible'') (bufferList (build env s updateWhat))"
proof -
  let ?i = "tasks_increment s"
  let ?s2 = "(create env (clear ?i))\<lparr>attached := Suc (attached ?i)\<rparr>"
  let ?v = "props ?i ''visible''"
  let ?sv = "setVisibility env ?s2 ?v False"
  note b = build_sync [OF assms(1,2), of updateWhat]
  have pv: "?v = props s ''visible''"
    by (simp add: tasks_increment_def tasks_change_def)
  have n: "\<not> lazyProps_build ?s2" "lazyProps_what ?s2 = []"
    using assms(3,4)
    by (simp_all add: create_def clear_def requestRender_def tasks_increment_def tasks_change_def)
  have s2: "removed (viewer ?s2) = removed (viewer s) @ map Buffer_dispose (bufferList s)"
    "bufferList ?s2 = created env" "attached ?s2 = Suc (attached s)"
    by (simp_all add: removed_simps buffers_simps)
  note sv = setVisibility_no_rebuild [OF n, where env = env and v = ?v and nr = False]
  have m: "\<not> disposed s \<Longrightarrow> build env s updateWhat = call_callback False (tasks_decrement ?sv)"
    unfolding b by (rule make_inner_attaches) simp
  have d: "disposed s \<Longrightarrow> build env s updateWhat = create env (clear ?i)"
    unfolding b by (rule make_inner_disposed) simp
  show "removed (viewer (build env s updateWhat)) =
           removed (viewer s) @ map Buffer_dispose (bufferList s)"
    using m d sv(2) s2(1) by (cases "disposed s") (simp_all add: removed_simps buffers_simps)
  show "attached (build env s updateWhat) = (if disposed s then attached s else Suc (attached s))"
    using m d sv(1) s2(3) by (cases "disposed s") simp_all
  show "same_buffers (created env) (bufferList (build env s updateWhat))"
    using m d sv(3) s2(2)
    by (cases "disposed s") (simp_all add: buffers_simps same_buffers_refl)
  show "\<not> disposed s \<longrightarrow>
           list_all (\<lambda>b. buffer_visible b = props s ''visible'') (bufferList (build env s updateWhat))"
    using m sv(4) pv by (simp add: buffers_simps)
qed

lemma build_sync_clears:
  assumes "\<not> has_prepare env" "\<not> build_deferred s"
  shows "starts_with (removed (viewer (build env s updateWhat)))
           (removed (viewer s) @ map Buffer_dispose (bufferList s))"
    and "same_buffers (created env) (bufferList (build env s updateWhat))"
proof -
  let ?i = "tasks_increment s"
  let ?s2 = "(create env (clear ?i))\<lparr>attached := Suc (attached ?i)\<rparr>"
  let ?v = "props ?i ''visible''"
  let ?sv = "setVisibility env ?s2 ?v False"
  note b = build_sync [OF assms(1,2), of updateWhat]
  have s2: "removed (viewer ?s2) = removed (viewer s) @ map Buffer_dispose (bufferList s)"
    "bufferList ?s2 = created env"
    by (simp_all add: removed_simps buffers_simps)
  have m: "\<not> disposed s \<Longrightarrow> build env s updateWhat = call_callback False (tasks_decrement ?sv)"
    unfolding b by (rule make_inner_attaches) simp
  have d: "disposed s \<Longrightarrow> build env s updateWhat = create env (clear ?i)"
    unfolding b by (rule make_inner_disposed) simp
  have g: "starts_with (removed (viewer ?sv)) (removed (viewer ?s2))"
    using removed_only_grows(4) [of ?s2 env ?v False] by (simp add: removed_grows_def)
  have k: "same_buffers (created env) (bufferList ?sv)"
    using buffers_are_kept(4) [of env ?s2 ?v False] s2(2) by (auto simp add: buffers_kept_def)
  show "starts_with (removed (viewer (build env s updateWhat)))
           (removed (viewer s) @ map Buffer_dispose (bufferList s))"
    using m d g s2(1)
    by (cases "disposed s") (simp_all add: removed_simps buffers_simps starts_with_def)
  show "same_buffers (created env) (bufferList (build env s updateWhat))"
    using m d k by (cases "disposed s") (simp_all add: buffers_simps same_buffers_refl)
qed

lemma setVisibility_pending_updates:
  "\<not> lazyProps_build s \<Longrightarrow> truthy v \<Longrightarrow> truthy (parameters s ''opacity'') \<Longrightarrow>
   lazyProps_bufferParams s \<noteq> [] \<or> lazyProps_what s \<noteq> [] \<Longrightarrow>
   setVisibility env s v nr =
     finish_visibility v nr
       (updateParameters env
          (s\<lparr>props := (props s)(''visible'' := v), lazyProps_bufferParams := [],
             lazyProps_what := []\<rparr>)
          (lazyProps_bufferParams s) (lazyProps_what s))"
  by (simp add: setVisibility.simps [of env s v nr] Let_def)

lemma updateParameters_update:
  "\<not> update_deferred s bufferParams \<Longrightarrow> what \<noteq> [] \<Longrightarrow>
   updateParameters env s bufferParams what =
     requestRender
       (build env (s\<lparr>bufferList := map (Buffer_setParameters bufferParams) (bufferList s)\<rparr>)
          (Some what))"
  by (simp add: updateParameters.simps [of env s bufferParams what]
      update.simps [of env "s\<lparr>bufferList := map (Buffer_setParameters bufferParams) (bufferList s)\<rparr>" what])

text \<open>With a deferred build and deferred attribute updates both pending, the rebuild runs
  twice: the \<open>setVisibility\<close> call of \<open>attach\<close> applies the deferred updates through
  \<open>update\<close>, which is \<open>build\<close>.\<close>

lemma deferred_build_and_updates:
  assumes "\<not> has_prepare env" "lazyProps_build s" "truthy v" "truthy (parameters s ''opacity'')"
    and "\<not> disposed s" "lazyProps_what s \<noteq> []"
    and "\<not> truthy (props s ''lazy'') \<or> truthy (props s ''opacity'')"
  shows "attached (setVisibility env s v nr) = Suc (Suc (attached s))"
proof -
  let ?t = "s\<lparr>props := (props s)(''visible'' := v), lazyProps_build := False\<rparr>"
  let ?i = "tasks_increment ?t"
  let ?s2 = "(create env (clear ?i))\<lparr>attached := Suc (attached ?i)\<rparr>"
  let ?u = "?s2\<lparr>props := (props ?s2)(''visible'' := v), lazyProps_bufferParams := [],
                lazyProps_what := []\<rparr>"
  let ?w = "?u\<lparr>bufferList := map (Buffer_setParameters (lazyProps_bufferParams ?s2)) (bufferList ?u)\<rparr>"
  have nd: "\<not> build_deferred ?t" using assms(3,4) by (simp add: build_deferred_def)
  have e1: "setVisibility env s v nr = build env ?t None"
    by (rule setVisibility_pending_build [OF assms(2,3,4)])
  have e2: "build env ?t None =
      call_callback False (tasks_decrement (setVisibility env ?s2 (props ?i ''visible'') False))"
    unfolding build_sync [OF assms(1) nd]
    by (rule make_inner_attaches) (simp add: assms(5))
  have pv: "props ?i ''visible'' = v" by (simp add: tasks_increment_def tasks_change_def)
  have f: "\<not> lazyProps_build ?s2" "lazyProps_what ?s2 = lazyProps_what s"
    "lazyProps_bufferParams ?s2 = lazyProps_bufferParams s"
    "parameters ?s2 = parameters s" "props ?s2 ''lazy'' = props s ''lazy''"
    "props ?s2 ''opacity'' = props s ''opacity''" "attached ?s2 = Suc (attached s)"
    "\<not> disposed ?s2"
    using assms(5)
    by (simp_all add: create_def clear_def requestRender_def tasks_increment_def tasks_change_def)
  have e3: "setVisibility env ?s2 v False =
      finish_visibility v False
        (updateParameters env ?u (lazyProps_bufferParams ?s2) (lazyProps_what ?s2))"
    by (rule setVisibility_pending_updates) (use assms(3,4,6) f(1,2,3,4) in simp_all)
  have nu: "\<not> update_deferred ?u (lazyProps_bufferParams ?s2)"
    using assms(3,7) f(5,6) by (auto simp add: update_deferred_def)
  have e4: "updateParameters env ?u (lazyProps_bufferParams ?s2) (lazyProps_what ?s2) =
      requestRender (build env ?w (Some (lazyProps_what ?s2)))"
    by (rule updateParameters_update [OF nu]) (use assms(6) f(2) in simp)
  have w: "\<not> build_deferred ?w" "\<not> lazyProps_build ?w" "lazyProps_what ?w = []"
    "\<not> disposed ?w" "attached ?w = Suc (attached s)"
    using assms(3,4) f(1,4,7,8) by (simp_all add: build_deferred_def)
  have e5: "attached (build env ?w (Some (lazyProps_what ?s2))) = Suc (Suc (attached s))"
    using build_sync_once(2) [OF assms(1) w(1,2,3), of "Some (lazyProps_what ?s2)"] w(4,5) by simp
  show ?thesis
    unfolding e1 e2 pv e3 e4 using e5 by simp
qed


lemma updateParameters_deferred:
  "update_deferred s bufferParams \<Longrightarrow>
   updateParameters env s bufferParams what =
     s\<lparr>lazyProps_bufferParams := assign (lazyProps_bufferParams s) bufferParams,
       lazyProps_what := assign (lazyProps_what s) what\<rparr>"
  by (simp add: updateParameters.simps [of env s bufferParams what])

text \<open>
  C1, as amended. On a representation whose build is deferred (\<open>this.parameters.lazy\<close> is
  truthy and it is invisible or its opacity is falsy), \<open>build\<close> only sets
  \<open>lazyProps.build\<close>: the buffers, the task counter, the queue and the viewer are as
  before. On a representation with a deferred build and truthy opacity, \<open>setVisibility\<close>
  with a truthy value resets the flag and calls \<open>build\<close> once; that call is not deferred
  again, and no deferred build is left when it returns. With a preparation step the call
  kills the queue and queues exactly one full rebuild. Without one, and with no attribute
  update deferred (\<open>lazyProps.what\<close> is empty), the rebuild runs exactly once: the old
  buffers, and only they, are removed and disposed, the owned buffers are the created
  ones, and \<open>attach\<close> runs once, setting their visibility (on a disposed representation
  it does not run).
\<close>

theorem lazy_build_deferred_until_visible:
  "(build_deferred s \<longrightarrow>
      build env s updateWhat = s\<lparr>lazyProps_build := True\<rparr> \<and>
      bufferList (build env s updateWhat) = bufferList s \<and>
      tasks (build env s updateWhat) = tasks s \<and>
      queue (build env s updateWhat) = queue s \<and>
      viewer (build env s updateWhat) = viewer s) \<and>
   (lazyProps_build t \<and> truthy value \<and> truthy (parameters t ''opacity'') \<longrightarrow>
      setVisibility env t value noRenderRequest =
        build env (t\<lparr>props := (props t)(''visible'' := value), lazyProps_build := False\<rparr>) None \<and>
      \<not> build_deferred (t\<lparr>props := (props t)(''visible'' := value), lazyProps_build := False\<rparr>) \<and>
      \<not> lazyProps_build (setVisibility env t value noRenderRequest) \<and>
      (has_prepare env \<longrightarrow>
         queue (setVisibility env t value noRenderRequest) = [None] \<and>
         count (tasks (setVisibility env t value noRenderRequest)) =
           count (tasks t) - int (length (queue t)) + 1 \<and>
         bufferList (setVisibility env t value noRenderRequest) = bufferList t \<and>
         attached (setVisibility env t value noRenderRequest) = attached t) \<and>
      (\<not> has_prepare env \<and> lazyProps_what t = [] \<longrightarrow>
         removed (viewer (setVisibility env t value noRenderRequest)) =
           removed (viewer t) @ map Buffer_dispose (bufferList t) \<and>
         same_buffers (created env) (bufferList (setVisibility env t value noRenderRequest)) \<and>
         attached (setVisibility env t value noRenderRequest) =
           (if disposed t then attached t else Suc (attached t)) \<and>
         (\<not> disposed t \<longrightarrow>
            list_all (\<lambda>b. buffer_visible b = value)
              (bufferList (setVisibility env t value noRenderRequest)))))"
proof -
  let ?t = "t\<lparr>props := (props t)(''visible'' := value), lazyProps_build := False\<rparr>"
  let ?r = "setVisibility env t value noRenderRequest"
  have part1: "build env s updateWhat = s\<lparr>lazyProps_build := True\<rparr> \<and>
      bufferList (build env s updateWhat) = bufferList s \<and>
      tasks (build env s updateWhat) = tasks s \<and>
      queue (build env s updateWhat) = queue s \<and>
      viewer (build env s updateWhat) = viewer s" if "build_deferred s"
    by (simp add: build_deferred_eq [OF that])
  have part2: "?r = build env ?t None \<and> \<not> build_deferred ?t \<and> \<not> lazyProps_build ?r \<and>
      (has_prepare env \<longrightarrow>
         queue ?r = [None] \<and> count (tasks ?r) = count (tasks t) - int (length (queue t)) + 1 \<and>
         bufferList ?r = bufferList t \<and> attached ?r = attached t) \<and>
      (\<not> has_prepare env \<and> lazyProps_what t = [] \<longrightarrow>
         removed (viewer ?r) = removed (viewer t) @ map Buffer_dispose (bufferList t) \<and>
         same_buffers (created env) (bufferList ?r) \<and>
         attached ?r = (if disposed t then attached t else Suc (attached t)) \<and>
         (\<not> disposed t \<longrightarrow> list_all (\<lambda>b. buffer_visible b = value) (bufferList ?r)))"
    if a: "lazyProps_build t \<and> truthy value \<and> truthy (parameters t ''opacity'')"
  proof -
    from a have eq: "?r = build env ?t None" by (simp add: setVisibility_pending_build)
    from a have nd: "\<not> build_deferred ?t" by (simp add: build_deferred_def)
    from a have fl: "\<not> lazyProps_build ?r"
      using awake_keeps_flag(5) [of "value" t env noRenderRequest] by simp
    have async: "queue ?r = [None] \<and>
        count (tasks ?r) = count (tasks t) - int (length (queue t)) + 1 \<and>
        bufferList ?r = bufferList t \<and> attached ?r = attached t" if p: "has_prepare env"
      unfolding eq
      using build_queued_effect(1,2) [OF p nd, of None]
      by (simp add: build_queued [OF p nd] queue_push_def queue_kill_def tasks_change_def
          tasks_increment_def)
    have sync: "removed (viewer ?r) = removed (viewer t) @ map Buffer_dispose (bufferList t) \<and>
        same_buffers (created env) (bufferList ?r) \<and>
        attached ?r = (if disposed t then attached t else Suc (attached t)) \<and>
        (\<not> disposed t \<longrightarrow> list_all (\<lambda>b. buffer_visible b = value) (bufferList ?r))"
      if q: "\<not> has_prepare env \<and> lazyProps_what t = []"
    proof -
      from q have c: "\<not> has_prepare env" "\<not> lazyProps_build ?t" "lazyProps_what ?t = []"
        by simp_all
      show ?thesis
        unfolding eq
        using build_sync_once [OF c(1) nd c(2,3), of None] by simp
    qed
    from eq nd fl async sync show ?thesis by blast
  qed
  from part1 part2 show ?thesis by blast
qed

theorem lazy_build_deferred_until_visible_witness:
  "build_deferred lazy_rep \<and>
   build sync_env lazy_rep None = lazy_rep\<lparr>lazyProps_build := True\<rparr> \<and>
   lazyProps_build (lazy_rep\<lparr>lazyProps_build := True\<rparr>) \<and>
   truthy (JBool True) \<and>
   truthy (parameters (lazy_rep\<lparr>lazyProps_build := True\<rparr>) ''opacity'') \<and>
   lazyProps_what (lazy_rep\<lparr>lazyProps_build := True\<rparr>) = [] \<and>
   \<not> lazyProps_build (setVisibility sync_env (lazy_rep\<lparr>lazyProps_build := True\<rparr>) (JBool True) False) \<and>
   removed (viewer (setVisibility sync_env (lazy_rep\<lparr>lazyProps_build := True\<rparr>) (JBool True) False)) =
     [Buffer_dispose old_Buffer] \<and>
   attached (setVisibility sync_env (lazy_rep\<lparr>lazyProps_build := True\<rparr>) (JBool True) False) = 1 \<and>
   has_prepare async_env \<and>
   queue (setVisibility async_env (lazy_rep\<lparr>lazyProps_build := True\<rparr>) (JBool True) False) = [None] \<and>
   count (tasks (setVisibility async_env (lazy_rep\<lparr>lazyProps_build := True\<rparr>) (JBool True) False)) = 1"
proof -
  let ?l = "lazy_rep\<lparr>lazyProps_build := True\<rparr>"
  have h1: "build_deferred lazy_rep" by (rule build_deferred_lazy_rep)
  have h2: "lazyProps_build ?l \<and> truthy (JBool True) \<and> truthy (parameters ?l ''opacity'')"
    by (simp add: lazy_rep_facts)
  have h3: "\<not> has_prepare sync_env \<and> lazyProps_what ?l = []" "has_prepare async_env"
    by (simp_all add: lazy_rep_facts sync_env_def async_env_def)
  have f: "removed (viewer ?l) = []" "bufferList ?l = [old_Buffer]" "attached ?l = 0"
    "\<not> disposed ?l" "queue ?l = []" "count (tasks ?l) = 0"
    by (simp_all add: lazy_rep_facts)
  from lazy_build_deferred_until_visible [of lazy_rep sync_env None ?l "JBool True" False] h1 h2 h3(1)
  have A: "build sync_env lazy_rep None = ?l"
    and B: "\<not> lazyProps_build (setVisibility sync_env ?l (JBool True) False)"
    and C: "removed (viewer (setVisibility sync_env ?l (JBool True) False)) =
        removed (viewer ?l) @ map Buffer_dispose (bufferList ?l)"
    and D: "attached (setVisibility sync_env ?l (JBool True) False) =
        (if disposed ?l then attached ?l else Suc (attached ?l))"
    by blast+
  from lazy_build_deferred_until_visible [of lazy_rep async_env None ?l "JBool True" False] h2 h3(2)
  have E: "queue (setVisibility async_env ?l (JBool True) False) = [None]"
    and F: "count (tasks (setVisibility async_env ?l (JBool True) False)) =
        count (tasks ?l) - int (length (queue ?l)) + 1"
    by blast+
  from C D F have C': "removed (viewer (setVisibility sync_env ?l (JBool True) False)) =
        [Buffer_dispose old_Buffer]"
    and D': "attached (setVisibility sync_env ?l (JBool True) False) = 1"
    and F': "count (tasks (setVisibility async_env ?l (JBool True) False)) = 1"
    unfolding f by (simp_all add: lazy_rep_facts)
  from h1 h2 h3 A B C' D' E F' show ?thesis by blast
qed

text \<open>
  C1 as stated fails on ``executes exactly once''. The lazy, invisible representation
  \<open>lazy_rep\<close> after \<open>build()\<close> and \<open>updateParameters({}, {color: true})\<close>, both deferred,
  is \<open>pending_rep\<close>; on it \<open>setVisibility(true)\<close> runs the rebuild twice (two attach
  steps): the \<open>setVisibility\<close> call of \<open>attach\<close> applies the deferred update through
  \<open>update\<close>, which in this class is \<open>build\<close>.
\<close>

theorem deferred_build_runs_twice:
  "updateParameters sync_env (build sync_env lazy_rep None) [] [(''color'', JBool True)] = pending_rep \<and>
   lazyProps_build pending_rep \<and>
   truthy (parameters pending_rep ''opacity'') \<and>
   attached pending_rep = 0 \<and>
   attached (setVisibility sync_env pending_rep (JBool True) False) = 2"
proof -
  let ?l = "lazy_rep\<lparr>lazyProps_build := True\<rparr>"
  have b: "build sync_env lazy_rep None = ?l"
    by (rule build_deferred_eq [OF build_deferred_lazy_rep])
  have ud: "update_deferred ?l []"
    by (simp add: update_deferred_def lazy_rep_facts obj_get_def)
  have u: "updateParameters sync_env ?l [] [(''color'', JBool True)] = pending_rep"
    unfolding updateParameters_deferred [OF ud]
    by (simp add: pending_rep_def assign_def lazy_rep_def)
  have p: "\<not> has_prepare sync_env" "lazyProps_build pending_rep" "truthy (JBool True)"
    "truthy (parameters pending_rep ''opacity'')" "\<not> disposed pending_rep"
    "lazyProps_what pending_rep \<noteq> []"
    "\<not> truthy (props pending_rep ''lazy'') \<or> truthy (props pending_rep ''opacity'')"
    "attached pending_rep = 0"
    by (simp_all add: pending_rep_def lazy_rep_facts sync_env_def)
  have a: "attached (setVisibility sync_env pending_rep (JBool True) False) = 2"
    using deferred_build_and_updates [OF p(1-7), of False] p(8) by simp
  from b u p a show ?thesis by simp
qed

subsection \<open>Coalescing\<close>

lemma builds_coalesce:
  "has_prepare env \<Longrightarrow> \<not> build_deferred s \<Longrightarrow> updateWhats \<noteq> [] \<Longrightarrow>
   queue (builds env s updateWhats) = [last updateWhats] \<and>
   count (tasks (builds env s updateWhats)) = count (tasks s) - int (length (queue s)) + 1"
proof (induction updateWhats arbitrary: s)
  case Nil
  then show ?case by simp
next
  case (Cons u us)
  let ?s1 = "build env s u"
  have q: "queue ?s1 = [u]"
    and c: "count (tasks ?s1) = count (tasks s) - int (length (queue s)) + 1"
    and d: "\<not> build_deferred ?s1"
    using Cons.prems by (simp_all add: build_queued_effect)
  show ?case
  proof (cases "us = []")
    case True
    then show ?thesis using q c by (simp add: builds_def)
  next
    case False
    from Cons.IH [OF Cons.prems(1) d False] q c
    show ?thesis using False by (simp add: builds_def)
  qed
qed

lemma builds_deferred:
  "build_deferred s \<Longrightarrow> updateWhats \<noteq> [] \<Longrightarrow>
   builds env s updateWhats = s\<lparr>lazyProps_build := True\<rparr>"
proof (induction updateWhats arbitrary: s)
  case Nil
  then show ?case by simp
next
  case (Cons u us)
  have d: "build_deferred (s\<lparr>lazyProps_build := True\<rparr>)"
    using Cons.prems(1) by (simp add: build_deferred_def)
  have b: "builds env s (u # us) = builds env (s\<lparr>lazyProps_build := True\<rparr>) us"
    by (simp add: builds_def build_deferred_eq [OF Cons.prems(1)])
  show ?case
  proof (cases "us = []")
    case True
    then show ?thesis by (simp add: builds_def build_deferred_eq [OF Cons.prems(1)])
  next
    case False
    from Cons.IH [OF d False] show ?thesis by (simp add: b)
  qed
qed

text \<open>
  C2, as amended. With a preparation step, on a representation whose build is not
  lazily deferred and whose task counter counts exactly the queued jobs (no task is in
  flight), any non-empty sequence of \<open>build\<close> calls with no job started in between leaves
  exactly one job in the queue (the one of the last call) and a task count of exactly 1.
  Each call corrects the count and kills the queue before it pushes the new job.
\<close>

theorem build_coalesces_to_one_job:
  "has_prepare env \<Longrightarrow> \<not> build_deferred s \<Longrightarrow> count (tasks s) = int (length (queue s)) \<Longrightarrow>
   updateWhats \<noteq> [] \<Longrightarrow>
   length (queue (builds env s updateWhats)) = 1 \<and>
   queue (builds env s updateWhats) = [last updateWhats] \<and>
   count (tasks (builds env s updateWhats)) = 1 \<and>
   build env s updateWhat =
     queue_push updateWhat
       (if length (queue s) > 0
        then queue_kill (tasks_change (1 - int (length (queue s))) s)
        else tasks_increment s)"
  using builds_coalesce [of env s updateWhats] build_queued [of env s updateWhat] by simp

theorem build_coalesces_to_one_job_witness:
  "has_prepare async_env \<and> \<not> build_deferred visible_rep \<and>
   count (tasks visible_rep) = int (length (queue visible_rep)) \<and>
   [None, Some [(''color'', JBool True)], None] \<noteq> [] \<and>
   length (queue (builds async_env visible_rep [None, Some [(''color'', JBool True)], None])) = 1 \<and>
   queue (builds async_env visible_rep [None, Some [(''color'', JBool True)], None]) = [None] \<and>
   count (tasks (builds async_env visible_rep [None, Some [(''color'', JBool True)], None])) = 1"
proof -
  have h: "has_prepare async_env" "\<not> build_deferred visible_rep"
    "count (tasks visible_rep) = int (length (queue visible_rep))"
    "[None, Some [(''color'', JBool True)], None] \<noteq> []"
    by (simp_all add: async_env_def sync_env_def visible_rep_def lazy_rep_def build_deferred_def)
  from build_coalesces_to_one_job [OF h]
  have "length (queue (builds async_env visible_rep [None, Some [(''color'', JBool True)], None])) = 1"
    and "queue (builds async_env visible_rep [None, Some [(''color'', JBool True)], None]) = [None]"
    and "count (tasks (builds async_env visible_rep [None, Some [(''color'', JBool True)], None])) = 1"
    by simp_all
  with h show ?thesis by blast
qed

text \<open>
  C2 as stated fails for a representation with a preparation step whose build is lazily
  deferred: three \<open>build\<close> calls on \<open>lazy_rep\<close> leave no job in the queue and the task
  count 0. It also fails when a task is in flight: on \<open>busy_rep\<close>, whose counter is 1
  with nothing queued, three \<open>build\<close> calls leave one job and the task count 2.
\<close>

theorem deferred_builds_queue_nothing:
  "has_prepare async_env \<and> build_deferred lazy_rep \<and>
   queue (builds async_env lazy_rep [None, None, None]) = [] \<and>
   count (tasks (builds async_env lazy_rep [None, None, None])) = 0 \<and>
   queue busy_rep = [] \<and> count (tasks busy_rep) = 1 \<and>
   queue (builds async_env busy_rep [None, None, None]) = [None] \<and>
   count (tasks (builds async_env busy_rep [None, None, None])) = 2"
proof -
  have p: "has_prepare async_env" by (simp add: async_env_def)
  have l: "builds async_env lazy_rep [None, None, None] = lazy_rep\<lparr>lazyProps_build := True\<rparr>"
    by (rule builds_deferred [OF build_deferred_lazy_rep]) simp
  have nb: "\<not> build_deferred busy_rep" "queue busy_rep = []" "count (tasks busy_rep) = 1"
    by (simp_all add: busy_rep_def build_deferred_def visible_rep_facts visible_rep_def lazy_rep_facts)
  from builds_coalesce [OF p nb(1), of "[None, None, None]"] nb(2,3)
  have b: "queue (builds async_env busy_rep [None, None, None]) = [None]"
    "count (tasks (builds async_env busy_rep [None, None, None])) = 2"
    by simp_all
  from p l nb b build_deferred_lazy_rep show ?thesis by (simp add: lazy_rep_facts)
qed


subsection \<open>Disposal\<close>

lemma dispose_sel:
  "disposed (dispose s)"
  "attached (dispose s) = attached s"
  "prepared (dispose s) = prepared s"
  "bufferList (dispose s) = []"
  by (simp_all add: dispose_def clear_def requestRender_def tasks_dispose_def queue_kill_def)

text \<open>
  C3. On a disposed representation the continuation \<open>_make\<close> of a build runs no attach
  step, whatever its arguments; in particular, when \<open>make\<close> has handed its continuation
  to the preparation step and \<open>dispose\<close> is called before the step ends, the
  continuation leaves the attach count where it was. Construction runs to completion: for
  a full rebuild the owned buffers are the newly created ones. Every method is a total
  function to a state: the source has no \<open>throw\<close> on these paths.
\<close>

theorem disposed_build_never_attaches:
  "(disposed s \<longrightarrow>
      disposed (make_inner env s updateWhat callback) \<and>
      attached (make_inner env s updateWhat callback) = attached s) \<and>
   (has_prepare env \<and> prepared t = [] \<longrightarrow>
      prepared (make env t updateWhat callback) = [(updateWhat, callback)] \<and>
      disposed (prepare_done env (dispose (make env t updateWhat callback))) \<and>
      attached (prepare_done env (dispose (make env t updateWhat callback))) = attached t \<and>
      (updateWhat = None \<longrightarrow>
         bufferList (prepare_done env (dispose (make env t updateWhat callback))) = created env))"
proof (intro conjI impI)
  assume d: "disposed s"
  with disposed_never_attaches(3) [of s env updateWhat callback]
  show "disposed (make_inner env s updateWhat callback)"
    and "attached (make_inner env s updateWhat callback) = attached s"
    by (simp_all add: no_attach_def)
next
  assume a: "has_prepare env \<and> prepared t = []"
  let ?m = "make env t updateWhat callback"
  let ?d = "(dispose ?m)\<lparr>prepared := []\<rparr>"
  have m: "?m = t\<lparr>prepared := [(updateWhat, callback)]\<rparr>"
    using a by (simp add: make.simps [of env t updateWhat callback])
  show "prepared ?m = [(updateWhat, callback)]" by (simp add: m)
  have p: "prepare_done env (dispose ?m) = make_inner env ?d updateWhat callback"
    by (simp add: prepare_done_def dispose_sel m)
  have dd: "disposed ?d" by (simp add: dispose_sel)
  have ad: "attached ?d = attached t" by (simp add: dispose_sel m)
  from disposed_never_attaches(3) [of ?d env updateWhat callback] dd ad
  show "disposed (prepare_done env (dispose ?m))"
    and "attached (prepare_done env (dispose ?m)) = attached t"
    unfolding p by (simp_all add: no_attach_def)
  show "bufferList (prepare_done env (dispose ?m)) = created env" if "updateWhat = None"
    unfolding p using that dd
    by (simp add: make_inner_disposed create_def clear_def requestRender_def dispose_sel)
qed

theorem disposed_build_never_attaches_witness:
  "disposed (dispose lazy_rep) \<and>
   attached (make_inner async_env (dispose lazy_rep) None True) = attached (dispose lazy_rep) \<and>
   has_prepare async_env \<and> prepared lazy_rep = [] \<and>
   attached (prepare_done async_env (dispose (make async_env lazy_rep None True))) = attached lazy_rep \<and>
   bufferList (prepare_done async_env (dispose (make async_env lazy_rep None True))) = created async_env"
proof -
  have h: "disposed (dispose lazy_rep)" "has_prepare async_env" "prepared lazy_rep = []"
    by (simp_all add: dispose_sel async_env_def sync_env_def lazy_rep_def)
  have a: "attached (dispose lazy_rep) = attached lazy_rep"
    by (simp add: dispose_sel)
  show ?thesis
    using disposed_build_never_attaches [of "dispose lazy_rep" async_env None True lazy_rep] h
    by blast
qed

subsection \<open>Visibility\<close>

lemma finish_visibility_buffers:
  "\<forall>b \<in> set (bufferList (finish_visibility value nr x)). buffer_visible b = value"
  by (simp add: finish_visibility_def Let_def requestRender_def Buffer_setVisibility_def)

lemma setVisibility_no_pending_build:
  assumes "\<not> (truthy value \<and> truthy (parameters s ''opacity'') \<and> lazyProps_build s)"
  shows "\<exists>x. setVisibility env s value nr = finish_visibility value nr x \<and> renders_grow s x"
proof (cases "truthy value \<and> truthy (parameters s ''opacity'') \<and>
              (lazyProps_bufferParams s \<noteq> [] \<or> lazyProps_what s \<noteq> [])")
  case True
  let ?s1 = "s\<lparr>props := (props s)(''visible'' := value), lazyProps_bufferParams := [],
                lazyProps_what := []\<rparr>"
  let ?x = "updateParameters env ?s1 (lazyProps_bufferParams s) (lazyProps_what s)"
  have "setVisibility env s value nr = finish_visibility value nr ?x"
    using True assms by (simp add: setVisibility.simps [of env s "value" nr] Let_def)
  moreover have "renders_grow s ?x"
    using renders_only_grow(5) [of ?s1 env "lazyProps_bufferParams s" "lazyProps_what s"]
    by (simp add: renders_grow_def)
  ultimately show ?thesis by blast
next
  case False
  let ?x = "s\<lparr>props := (props s)(''visible'' := value)\<rparr>"
  have "setVisibility env s value nr = finish_visibility value nr ?x"
    using False assms by (auto simp add: setVisibility.simps [of env s "value" nr] Let_def)
  moreover have "renders_grow s ?x" by (simp add: renders_grow_def)
  ultimately show ?thesis by blast
qed

text \<open>
  C6, as amended. Unless a deferred build is triggered (the value and the opacity are
  truthy and \<open>lazyProps.build\<close> is set), \<open>setVisibility\<close> leaves every owned buffer with
  the visibility value and, unless \<open>noRenderRequest\<close> is set, with at least one more
  render request than before; this includes the path that applies deferred parameter
  updates. When a deferred build is triggered, \<open>setVisibility\<close> is the \<open>build\<close> call on
  the state with the flag reset and nothing more: it returns without propagating or
  requesting a render itself.
\<close>

theorem setVisibility_propagates_unless_build_pending:
  "(\<not> (truthy value \<and> truthy (parameters s ''opacity'') \<and> lazyProps_build s) \<longrightarrow>
      (\<forall>b \<in> set (bufferList (setVisibility env s value noRenderRequest)). buffer_visible b = value) \<and>
      (\<not> noRenderRequest \<longrightarrow>
         renderRequests (viewer s) <
         renderRequests (viewer (setVisibility env s value noRenderRequest)))) \<and>
   (truthy value \<and> truthy (parameters t ''opacity'') \<and> lazyProps_build t \<longrightarrow>
      setVisibility env t value noRenderRequest =
        build env (t\<lparr>props := (props t)(''visible'' := value), lazyProps_build := False\<rparr>) None)"
proof (intro conjI impI)
  assume a: "\<not> (truthy value \<and> truthy (parameters s ''opacity'') \<and> lazyProps_build s)"
  from setVisibility_no_pending_build [OF a, of env noRenderRequest]
  obtain x where x: "setVisibility env s value noRenderRequest = finish_visibility value noRenderRequest x"
    and g: "renders_grow s x" by blast
  show "\<forall>b \<in> set (bufferList (setVisibility env s value noRenderRequest)). buffer_visible b = value"
    unfolding x by (rule finish_visibility_buffers)
  show "renderRequests (viewer s) < renderRequests (viewer (setVisibility env s value noRenderRequest))"
    if "\<not> noRenderRequest"
    using that g unfolding x by (simp add: renders_grow_def)
next
  assume "truthy value \<and> truthy (parameters t ''opacity'') \<and> lazyProps_build t"
  then show "setVisibility env t value noRenderRequest =
        build env (t\<lparr>props := (props t)(''visible'' := value), lazyProps_build := False\<rparr>) None"
    by (simp add: setVisibility_pending_build)
qed

theorem setVisibility_propagates_unless_build_pending_witness:
  "\<not> (truthy (JBool True) \<and> truthy (parameters lazy_rep ''opacity'') \<and> lazyProps_build lazy_rep) \<and>
   bufferList lazy_rep \<noteq> [] \<and>
   list_all (\<lambda>b. buffer_visible b = JBool True)
     (bufferList (setVisibility sync_env lazy_rep (JBool True) False)) \<and>
   renderRequests (viewer lazy_rep) <
     renderRequests (viewer (setVisibility sync_env lazy_rep (JBool True) False)) \<and>
   truthy (parameters (lazy_rep\<lparr>lazyProps_build := True\<rparr>) ''opacity'') \<and>
   lazyProps_build (lazy_rep\<lparr>lazyProps_build := True\<rparr>) \<and>
   setVisibility sync_env (lazy_rep\<lparr>lazyProps_build := True\<rparr>) (JBool True) False =
     build sync_env
       ((lazy_rep\<lparr>lazyProps_build := True\<rparr>)
          \<lparr>props := (props (lazy_rep\<lparr>lazyProps_build := True\<rparr>))(''visible'' := JBool True),
           lazyProps_build := False\<rparr>) None"
proof -
  have h: "\<not> (truthy (JBool True) \<and> truthy (parameters lazy_rep ''opacity'') \<and> lazyProps_build lazy_rep)"
    "bufferList lazy_rep \<noteq> []"
    "truthy (JBool True) \<and> truthy (parameters (lazy_rep\<lparr>lazyProps_build := True\<rparr>) ''opacity'') \<and>
     lazyProps_build (lazy_rep\<lparr>lazyProps_build := True\<rparr>)"
    by (simp_all add: lazy_rep_def)
  show ?thesis
    using setVisibility_propagates_unless_build_pending
      [of "JBool True" lazy_rep sync_env False "lazy_rep\<lparr>lazyProps_build := True\<rparr>"] h
    unfolding list_all_iff by blast
qed

text \<open>With a preparation step and a deferred build pending, \<open>setVisibility(true)\<close> queues
  the build and returns: the owned buffer keeps its old visibility and no render is
  requested.\<close>

text \<open>
  C6 as stated fails on the path that triggers a deferred build: with a preparation
  step, \<open>setVisibility(true)\<close> on a representation with a deferred build queues the build
  and returns; the owned buffer keeps its old visibility and no render is requested.
\<close>

theorem setVisibility_pending_build_counterexample:
  "map buffer_visible
     (bufferList (setVisibility async_env (lazy_rep\<lparr>lazyProps_build := True\<rparr>) (JBool True) False)) =
     [JBool False] \<and>
   renderRequests (viewer (setVisibility async_env (lazy_rep\<lparr>lazyProps_build := True\<rparr>) (JBool True) False)) =
     renderRequests (viewer (lazy_rep\<lparr>lazyProps_build := True\<rparr>))"
proof -
  let ?t = "lazy_rep\<lparr>lazyProps_build := True\<rparr>"
  let ?u = "?t\<lparr>props := (props ?t)(''visible'' := JBool True), lazyProps_build := False\<rparr>"
  have e: "setVisibility async_env ?t (JBool True) False = build async_env ?u None"
    by (rule setVisibility_pending_build) (simp_all add: lazy_rep_def)
  have p: "has_prepare async_env" by (simp add: async_env_def)
  have nd: "\<not> build_deferred ?u" by (simp add: build_deferred_def lazy_rep_def)
  show ?thesis
    unfolding e build_queued [OF p nd]
    by (simp add: queue_push_def tasks_increment_def tasks_change_def lazy_rep_def old_Buffer_def)
qed

subsection \<open>setColor\<close>




subsection \<open>setParameters\<close>

lemma param_step_unchanged:
  "obj_get (loop_p st) name \<noteq> JUndefined \<Longrightarrow> tp name \<noteq> JUndefined \<Longrightarrow>
   unchanged (coerce env (meta_of (tp name)) (obj_get (loop_p st) name)) (loop_props st name) \<Longrightarrow>
   param_step env tp name st =
     st\<lparr>loop_p := AList.update name (coerce env (meta_of (tp name)) (obj_get (loop_p st) name)) (loop_p st)\<rparr>"
  by (simp add: param_step_def Let_def)

lemma diff_single:
  assumes "name \<noteq> ''color''" "name \<noteq> ''opacity''" "v \<noteq> JUndefined"
    and "parameters s name = JMeta i m"
    and "\<not> unchanged (coerce env m v) (props s name)"
  shows "diff_parameters env s [(name, v)] [] False =
     (committed env s name m v,
      \<lparr>loop_props = props (committed env s name m v),
       loop_p = [(name, coerce env m v)],
       loop_bufferParams = stage_buffer m name (coerce env m v) [],
       loop_what = mark_update m [],
       loop_rebuild = escalates env m (props (committed env s name m v) ''disableImpostor'')\<rparr>)"
  using assms
  by (simp add: diff_parameters_def flush_deferred_def setColor_target_def names_scheme_def
      obj_get_def param_step_def Let_def meta_of_def committed_def)

lemma cells_equal: "list_all2 cell_strict_eq xs ys \<Longrightarrow> xs = ys"
  by (induction rule: list_all2_induct) (simp_all add: cell_strict_eq_def)

lemma unchanged_same_value: "unchanged a b \<Longrightarrow> same_value a b"
  by (cases a; cases b) (auto simp add: unchanged_def dest: cells_equal)

lemma param_step_keeps_rebuild:
  "loop_rebuild st \<Longrightarrow> loop_rebuild (param_step env tp name st)"
  by (simp add: param_step_def Let_def)

lemma fold_param_step_keeps_rebuild:
  "loop_rebuild st \<Longrightarrow> loop_rebuild (fold (param_step env tp) names st)"
  by (induction names arbitrary: st) (simp_all add: param_step_keeps_rebuild)

lemma diff_frame:
  "viewer (fst (diff_parameters env s p what rebuild)) = viewer s"
  "bufferList (fst (diff_parameters env s p what rebuild)) = bufferList s"
  by (simp_all add: diff_parameters_def flush_deferred_def Let_def split: prod.splits if_splits)

lemma flush_single:
  "parameters s name = JMeta i m \<Longrightarrow> flush_deferred s [(name, v)] what rebuild = (s, [], what, rebuild)"
  by (auto simp add: flush_deferred_def obj_get_def)

lemma setColor_target_single:
  "\<exists>rest. setColor_target env (obj_get [(name, v)] ''color'') [(name, v)] = (name, v) # rest"
  by (cases "name = ''color''") (simp_all add: setColor_target_def obj_get_def names_scheme_def)

lemma diff_escalates:
  assumes "v \<noteq> JUndefined" "parameters s name = JMeta i m"
    and "\<not> unchanged (coerce env m v) (props s name)"
    and "escalates env m (props (committed env s name m v) ''disableImpostor'')"
  shows "loop_rebuild (snd (diff_parameters env s [(name, v)] [] False))"
proof -
  obtain rest where p1: "setColor_target env (obj_get [(name, v)] ''color'') [(name, v)] = (name, v) # rest"
    using setColor_target_single by blast
  let ?st0 = "\<lparr>loop_props = props s, loop_p = (name, v) # rest, loop_bufferParams = [],
               loop_what = [], loop_rebuild = False\<rparr>"
  have r: "loop_rebuild (param_step env (parameters s) name ?st0)"
    using assms by (simp add: param_step_def obj_get_def Let_def meta_of_def committed_def)
  have "loop_rebuild (fold (param_step env (parameters s)) (name # map fst rest) ?st0)"
    using fold_param_step_keeps_rebuild [OF r, of env "parameters s" "map fst rest"] by simp
  then show ?thesis
    by (simp add: diff_parameters_def flush_single [OF assms(2)] p1 Let_def)
qed

lemma diff_single_any:
  assumes "name \<noteq> ''color''" "v \<noteq> JUndefined"
    and "parameters s name = JMeta i m"
    and "\<not> unchanged (coerce env m v) (props s name)"
  shows "diff_parameters env s [(name, v)] [] False =
     (committed env s name m v,
      \<lparr>loop_props = props (committed env s name m v),
       loop_p = [(name, coerce env m v)],
       loop_bufferParams = stage_buffer m name (coerce env m v) [],
       loop_what = mark_update m [],
       loop_rebuild = escalates env m (props (committed env s name m v) ''disableImpostor'')\<rparr>)"
  using assms
  by (simp add: diff_parameters_def flush_single [OF assms(3)] setColor_target_def names_scheme_def
      obj_get_def param_step_def Let_def meta_of_def committed_def)

lemma diff_undefined:
  "parameters s name = JMeta i m \<Longrightarrow>
   diff_parameters env s [(name, JUndefined)] [] False =
     (s, \<lparr>loop_props = props s, loop_p = [(name, JUndefined)], loop_bufferParams = [],
          loop_what = [], loop_rebuild = False\<rparr>)"
  by (simp add: diff_parameters_def flush_single setColor_target_def names_scheme_def
      obj_get_def param_step_def Let_def)

text \<open>
  C4, as amended. For a recognised parameter whose supplied value (after the \<open>int\<close> /
  \<open>float\<close> coercion) differs from the current one, with \<open>rebuild: true\<close>, or with
  \<open>rebuild: 'impostor'\<close> while impostor rendering is unavailable or disabled,
  \<open>setParameters\<close> ends in \<open>build()\<close>, not in \<open>updateParameters\<close>; unless that build is
  lazily deferred or queued behind a preparation step, the buffers owned before are
  removed and disposed and the owned buffers are created ones. With \<open>rebuild: 'impostor'\<close>
  while impostor rendering is available and not disabled
  (\<open>ExtensionFragDepth && !this.disableImpostor\<close>), the escalation is suppressed:
  \<open>setParameters\<close> ends in \<open>updateParameters\<close> (for a parameter other than \<open>color\<close>, to
  which \<open>setColor\<close> adds \<open>colorScheme\<close> and \<open>colorValue\<close>). The state that is built or
  updated is, for a parameter other than \<open>color\<close>, the one with the value committed.
\<close>

theorem rebuild_parameter_calls_build:
  assumes "v \<noteq> JUndefined"
    and "parameters s name = JMeta i m"
    and "\<not> same_value (coerce env m v) (props s name)"
  shows
   "(meta_rebuild m = RebuildAlways \<or>
     meta_rebuild m = RebuildImpostor \<and>
       (ExtensionFragDepth env \<longrightarrow> truthy (props (committed env s name m v) ''disableImpostor'')) \<longrightarrow>
       setParameters env s [(name, v)] [] False =
         build env (fst (diff_parameters env s [(name, v)] [] False)) None \<and>
       (\<not> has_prepare env \<and> \<not> build_deferred (fst (diff_parameters env s [(name, v)] [] False)) \<longrightarrow>
          starts_with (removed (viewer (setParameters env s [(name, v)] [] False)))
            (removed (viewer s) @ map Buffer_dispose (bufferList s)) \<and>
          same_buffers (created env) (bufferList (setParameters env s [(name, v)] [] False)))) \<and>
    (meta_rebuild m = RebuildImpostor \<and> ExtensionFragDepth env \<and>
     \<not> truthy (props (committed env s name m v) ''disableImpostor'') \<and> name \<noteq> ''color'' \<longrightarrow>
       setParameters env s [(name, v)] [] False =
         updateParameters env (committed env s name m v)
           (stage_buffer m name (coerce env m v) []) (mark_update m [])) \<and>
    (name \<noteq> ''color'' \<longrightarrow>
       fst (diff_parameters env s [(name, v)] [] False) = committed env s name m v)"
proof -
  let ?D = "diff_parameters env s [(name, v)] [] False"
  let ?r = "setParameters env s [(name, v)] [] False"
  let ?c = "committed env s name m v"
  have ch: "\<not> unchanged (coerce env m v) (props s name)"
    using assms(3) unchanged_same_value by blast
  have A: "?r = build env (fst ?D) None \<and>
       (\<not> has_prepare env \<and> \<not> build_deferred (fst ?D) \<longrightarrow>
          starts_with (removed (viewer ?r)) (removed (viewer s) @ map Buffer_dispose (bufferList s)) \<and>
          same_buffers (created env) (bufferList ?r))"
    if e: "meta_rebuild m = RebuildAlways \<or>
       meta_rebuild m = RebuildImpostor \<and>
         (ExtensionFragDepth env \<longrightarrow> truthy (props ?c ''disableImpostor''))"
  proof -
    from e have "escalates env m (props ?c ''disableImpostor'')"
      by (auto simp add: escalates_def)
    then have "loop_rebuild (snd ?D)"
      by (rule diff_escalates [OF assms(1,2) ch])
    then have eq: "?r = build env (fst ?D) None"
      by (simp add: setParameters_def split_beta)
    have "starts_with (removed (viewer ?r)) (removed (viewer s) @ map Buffer_dispose (bufferList s)) \<and>
          same_buffers (created env) (bufferList ?r)"
      if "\<not> has_prepare env \<and> \<not> build_deferred (fst ?D)"
      unfolding eq
      using that build_sync_clears [of env "fst ?D" None] by (simp add: diff_frame)
    with eq show ?thesis by blast
  qed
  have C: "fst ?D = ?c" if "name \<noteq> ''color''"
    by (simp add: diff_single_any [OF that assms(1,2) ch])
  have B: "?r = updateParameters env ?c (stage_buffer m name (coerce env m v) []) (mark_update m [])"
    if "meta_rebuild m = RebuildImpostor \<and> ExtensionFragDepth env \<and>
        \<not> truthy (props ?c ''disableImpostor'') \<and> name \<noteq> ''color''"
    using that
    by (simp add: setParameters_def diff_single_any [OF _ assms(1,2) ch] escalates_def)
  from A B C show ?thesis by blast
qed


theorem rebuild_parameter_calls_build_witness:
  "setParameters sync_env visible_rep [(''disableImpostor'', JBool True)] [] False =
     build sync_env (committed sync_env visible_rep ''disableImpostor'' disableImpostor_meta (JBool True)) None \<and>
   starts_with
     (removed (viewer (setParameters sync_env visible_rep [(''disableImpostor'', JBool True)] [] False)))
     [Buffer_dispose old_Buffer] \<and>
   same_buffers [new_Buffer]
     (bufferList (setParameters sync_env visible_rep [(''disableImpostor'', JBool True)] [] False)) \<and>
   setParameters sync_env visible_rep [(''sphereDetail'', JNum 2)] [] False =
     updateParameters sync_env
       (committed sync_env visible_rep ''sphereDetail'' sphereDetail_meta (JNum 2)) [] [] \<and>
   setParameters no_impostor_env visible_rep [(''sphereDetail'', JNum 2)] [] False =
     build no_impostor_env
       (committed no_impostor_env visible_rep ''sphereDetail'' sphereDetail_meta (JNum 2)) None"
proof -
  have n: "''disableImpostor'' \<noteq> ''color''" "''sphereDetail'' \<noteq> ''color''"
    "JBool True \<noteq> JUndefined" "JNum 2 \<noteq> JUndefined"
    by simp_all
  have ch: "\<not> same_value (coerce sync_env disableImpostor_meta (JBool True)) (props visible_rep ''disableImpostor'')"
    "\<not> same_value (coerce sync_env sphereDetail_meta (JNum 2)) (props visible_rep ''sphereDetail'')"
    "\<not> same_value (coerce no_impostor_env sphereDetail_meta (JNum 2)) (props visible_rep ''sphereDetail'')"
    by (simp_all add: env_facts visible_rep_facts)
  have m: "meta_rebuild disableImpostor_meta = RebuildAlways"
    "meta_rebuild sphereDetail_meta = RebuildImpostor"
    "stage_buffer sphereDetail_meta ''sphereDetail'' (coerce sync_env sphereDetail_meta (JNum 2)) [] = []"
    "mark_update sphereDetail_meta [] = []"
    by (simp_all add: disableImpostor_meta_def sphereDetail_meta_def no_meta_def stage_buffer_def
        mark_update_def)
  let ?c = "committed sync_env visible_rep ''disableImpostor'' disableImpostor_meta (JBool True)"
  have c: "\<not> has_prepare sync_env" "\<not> build_deferred ?c"
    "ExtensionFragDepth sync_env \<and>
     \<not> truthy (props (committed sync_env visible_rep ''sphereDetail'' sphereDetail_meta (JNum 2))
                  ''disableImpostor'')"
    "\<not> ExtensionFragDepth no_impostor_env"
    by (simp_all add: env_facts build_deferred_def committed_sel visible_rep_facts)
  note t1 = rebuild_parameter_calls_build [OF n(3) visible_rep_facts(2) ch(1)]
  from t1 m(1) n(1)
  have F: "fst (diff_parameters sync_env visible_rep [(''disableImpostor'', JBool True)] [] False) = ?c"
    by blast
  from t1 m(1)
  have A0: "setParameters sync_env visible_rep [(''disableImpostor'', JBool True)] [] False =
      build sync_env (fst (diff_parameters sync_env visible_rep [(''disableImpostor'', JBool True)] [] False)) None"
    and B0: "\<not> has_prepare sync_env \<and>
       \<not> build_deferred (fst (diff_parameters sync_env visible_rep [(''disableImpostor'', JBool True)] [] False)) \<longrightarrow>
       starts_with
         (removed (viewer (setParameters sync_env visible_rep [(''disableImpostor'', JBool True)] [] False)))
         (removed (viewer visible_rep) @ map Buffer_dispose (bufferList visible_rep)) \<and>
       same_buffers (created sync_env)
         (bufferList (setParameters sync_env visible_rep [(''disableImpostor'', JBool True)] [] False))"
    by blast+
  from A0
  have A: "setParameters sync_env visible_rep [(''disableImpostor'', JBool True)] [] False =
      build sync_env ?c None"
    unfolding F .
  from B0 c(1,2)
  have B: "starts_with
       (removed (viewer (setParameters sync_env visible_rep [(''disableImpostor'', JBool True)] [] False)))
       (removed (viewer visible_rep) @ map Buffer_dispose (bufferList visible_rep))"
    and C: "same_buffers (created sync_env)
       (bufferList (setParameters sync_env visible_rep [(''disableImpostor'', JBool True)] [] False))"
    unfolding F by blast+
  from rebuild_parameter_calls_build [OF n(4) visible_rep_facts(1) ch(2)] m(2,3,4) c(3) n(2)
  have D: "setParameters sync_env visible_rep [(''sphereDetail'', JNum 2)] [] False =
     updateParameters sync_env
       (committed sync_env visible_rep ''sphereDetail'' sphereDetail_meta (JNum 2)) [] []"
    by simp
  from rebuild_parameter_calls_build [OF n(4) visible_rep_facts(1) ch(3)] m(2) c(4) n(2)
  have E: "setParameters no_impostor_env visible_rep [(''sphereDetail'', JNum 2)] [] False =
     build no_impostor_env
       (committed no_impostor_env visible_rep ''sphereDetail'' sphereDetail_meta (JNum 2)) None"
    by simp
  from B C
  have B': "starts_with
       (removed (viewer (setParameters sync_env visible_rep [(''disableImpostor'', JBool True)] [] False)))
       [Buffer_dispose old_Buffer]"
    and C': "same_buffers [new_Buffer]
       (bufferList (setParameters sync_env visible_rep [(''disableImpostor'', JBool True)] [] False))"
    unfolding visible_rep_facts env_facts by simp_all
  from A B' C' D E show ?thesis by blast
qed

text \<open>
  C4 as stated fails in four ways. On the \<open>'impostor'\<close> marker the condition is the
  opposite one: for \<open>setParameters({sphereDetail: 2})\<close> with impostor rendering
  unavailable the rebuild is escalated (an attach step runs), and with impostor rendering
  available and not disabled it is suppressed. On the lazy, invisible \<open>lazy_rep\<close>, a
  changed \<open>rebuild: true\<close> parameter clears and recreates no buffer: the build is only
  recorded. With a preparation step the build is only queued. And the value \<open>undefined\<close>,
  though it differs from the current value, is skipped by the loop: no rebuild.
\<close>

theorem impostor_rebuild_counterexample:
  "\<not> ExtensionFragDepth no_impostor_env \<and>
   loop_rebuild (snd (diff_parameters no_impostor_env visible_rep [(''sphereDetail'', JNum 2)] [] False)) \<and>
   attached (setParameters no_impostor_env visible_rep [(''sphereDetail'', JNum 2)] [] False) =
     Suc (attached visible_rep) \<and>
   ExtensionFragDepth sync_env \<and> \<not> truthy (props visible_rep ''disableImpostor'') \<and>
   \<not> loop_rebuild (snd (diff_parameters sync_env visible_rep [(''sphereDetail'', JNum 2)] [] False)) \<and>
   attached (setParameters sync_env visible_rep [(''sphereDetail'', JNum 2)] [] False) =
     attached visible_rep \<and>
   meta_rebuild disableImpostor_meta = RebuildAlways \<and>
   \<not> same_value (JBool True) (props lazy_rep ''disableImpostor'') \<and>
   bufferList (setParameters sync_env lazy_rep [(''disableImpostor'', JBool True)] [] False) =
     bufferList lazy_rep \<and>
   removed (viewer (setParameters sync_env lazy_rep [(''disableImpostor'', JBool True)] [] False)) = [] \<and>
   lazyProps_build (setParameters sync_env lazy_rep [(''disableImpostor'', JBool True)] [] False) \<and>
   has_prepare async_env \<and>
   \<not> same_value (JBool True) (props visible_rep ''disableImpostor'') \<and>
   bufferList (setParameters async_env visible_rep [(''disableImpostor'', JBool True)] [] False) =
     bufferList visible_rep \<and>
   removed (viewer (setParameters async_env visible_rep [(''disableImpostor'', JBool True)] [] False)) = [] \<and>
   queue (setParameters async_env visible_rep [(''disableImpostor'', JBool True)] [] False) = [None] \<and>
   \<not> same_value JUndefined (props visible_rep ''disableImpostor'') \<and>
   attached (setParameters sync_env visible_rep [(''disableImpostor'', JUndefined)] [] False) =
     attached visible_rep \<and>
   removed (viewer (setParameters sync_env visible_rep [(''disableImpostor'', JUndefined)] [] False)) = []"
proof -
  have ch: "\<not> unchanged (coerce no_impostor_env sphereDetail_meta (JNum 2)) (props visible_rep ''sphereDetail'')"
    "\<not> unchanged (coerce sync_env sphereDetail_meta (JNum 2)) (props visible_rep ''sphereDetail'')"
    "\<not> unchanged (coerce sync_env disableImpostor_meta (JBool True)) (props lazy_rep ''disableImpostor'')"
    "\<not> unchanged (coerce async_env disableImpostor_meta (JBool True)) (props visible_rep ''disableImpostor'')"
    by (simp_all add: env_facts unchanged_def visible_rep_facts lazy_rep_facts)
  note d1 = diff_single_any [of "''sphereDetail''" "JNum 2" visible_rep 1 sphereDetail_meta no_impostor_env,
      OF _ _ visible_rep_facts(1) ch(1)]
  note d2 = diff_single_any [of "''sphereDetail''" "JNum 2" visible_rep 1 sphereDetail_meta sync_env,
      OF _ _ visible_rep_facts(1) ch(2)]
  note d3 = diff_single_any [of "''disableImpostor''" "JBool True" lazy_rep 2 disableImpostor_meta sync_env,
      OF _ _ lazy_rep_facts(15) ch(3)]
  note d4 = diff_single_any [of "''disableImpostor''" "JBool True" visible_rep 2 disableImpostor_meta async_env,
      OF _ _ visible_rep_facts(2) ch(4)]
  let ?c1 = "committed no_impostor_env visible_rep ''sphereDetail'' sphereDetail_meta (JNum 2)"
  let ?c2 = "committed sync_env visible_rep ''sphereDetail'' sphereDetail_meta (JNum 2)"
  let ?c3 = "committed sync_env lazy_rep ''disableImpostor'' disableImpostor_meta (JBool True)"
  let ?c4 = "committed async_env visible_rep ''disableImpostor'' disableImpostor_meta (JBool True)"
  have r1: "loop_rebuild (snd (diff_parameters no_impostor_env visible_rep [(''sphereDetail'', JNum 2)] [] False))"
    by (simp add: d1 escalates_def sphereDetail_meta_def no_meta_def env_facts)
  have r2: "\<not> loop_rebuild (snd (diff_parameters sync_env visible_rep [(''sphereDetail'', JNum 2)] [] False))"
    by (simp add: d2 escalates_def sphereDetail_meta_def no_meta_def env_facts committed_sel
        visible_rep_facts)
  have s1: "setParameters no_impostor_env visible_rep [(''sphereDetail'', JNum 2)] [] False =
      build no_impostor_env ?c1 None"
    using r1 by (simp add: setParameters_def d1)
  have nd1: "\<not> build_deferred ?c1"
    by (simp add: build_deferred_def committed_sel visible_rep_facts)
  have a1: "attached (build no_impostor_env ?c1 None) = Suc (attached visible_rep)"
    using build_sync_once(2) [of no_impostor_env ?c1 None]
    by (simp add: nd1 env_facts committed_sel visible_rep_facts)
  have s2: "setParameters sync_env visible_rep [(''sphereDetail'', JNum 2)] [] False =
      updateParameters sync_env ?c2 [] []"
    using r2
    by (simp add: setParameters_def d2 stage_buffer_def mark_update_def sphereDetail_meta_def
        no_meta_def)
  have nu: "\<not> update_deferred ?c2 []"
    by (simp add: update_deferred_def committed_sel visible_rep_facts)
  have a2: "attached (updateParameters sync_env ?c2 [] []) = attached visible_rep"
    by (simp add: updateParameters_plain [OF nu] committed_sel)
  have m: "meta_rebuild disableImpostor_meta = RebuildAlways"
    by (simp add: disableImpostor_meta_def no_meta_def)
  have s3: "setParameters sync_env lazy_rep [(''disableImpostor'', JBool True)] [] False =
      build sync_env ?c3 None"
    by (simp add: setParameters_def d3 escalates_def m)
  have bd3: "build_deferred ?c3"
    by (simp add: build_deferred_def committed_sel lazy_rep_facts)
  have a3: "bufferList (build sync_env ?c3 None) = bufferList lazy_rep"
    "removed (viewer (build sync_env ?c3 None)) = []"
    "lazyProps_build (build sync_env ?c3 None)"
    by (simp_all add: build_deferred_eq [OF bd3] committed_sel lazy_rep_facts)
  have s4: "setParameters async_env visible_rep [(''disableImpostor'', JBool True)] [] False =
      build async_env ?c4 None"
    by (simp add: setParameters_def d4 escalates_def m)
  have nd4: "\<not> build_deferred ?c4"
    by (simp add: build_deferred_def committed_sel visible_rep_facts)
  have a4: "bufferList (build async_env ?c4 None) = bufferList visible_rep"
    "removed (viewer (build async_env ?c4 None)) = []"
    "queue (build async_env ?c4 None) = [None]"
    using build_queued_effect(1) [OF env_facts(10) nd4, of None]
    by (simp_all add: build_queued [OF env_facts(10) nd4] queue_push_def queue_kill_def
        tasks_change_def tasks_increment_def committed_sel visible_rep_facts)
  have nu5: "\<not> update_deferred visible_rep []"
    by (simp add: update_deferred_def visible_rep_facts)
  have s5: "setParameters sync_env visible_rep [(''disableImpostor'', JUndefined)] [] False =
      updateParameters sync_env visible_rep [] []"
    by (simp add: setParameters_def diff_undefined [OF visible_rep_facts(2)])
  have a5: "attached (updateParameters sync_env visible_rep [] []) = attached visible_rep"
    "removed (viewer (updateParameters sync_env visible_rep [] [])) = []"
    by (simp_all add: updateParameters_plain [OF nu5] removed_simps visible_rep_facts)
  show ?thesis
    by (simp add: r1 r2 s1 s2 s3 s4 s5 a1 a2 a3 a4 a5 m env_facts visible_rep_facts lazy_rep_facts)
qed

text \<open>
  C7. An unchanged value is claimed to be a no-op, with structural equality through
  \<open>equals\<close>. The current \<open>clipCenter\<close> is the vector \<open>(0,0,0)\<close>; passing another vector
  \<open>(0,0,0)\<close>, equal by \<open>equals\<close> but a different object, is not recognised as unchanged:
  the value is staged as a buffer parameter and set on the owned buffer. Only the very
  same object is skipped.
\<close>

theorem equal_vector_is_staged_again:
  "props visible_rep ''clipCenter'' = JObj 10 [Num 0, Num 0, Num 0] \<and>
   js_equals (JObj 11 [Num 0, Num 0, Num 0]) (props visible_rep ''clipCenter'') \<and>
   \<not> strict_eq (JObj 11 [Num 0, Num 0, Num 0]) (props visible_rep ''clipCenter'') \<and>
   loop_bufferParams
     (snd (diff_parameters sync_env visible_rep [(''clipCenter'', JObj 11 [Num 0, Num 0, Num 0])] [] False)) =
     [(''clipCenter'', JObj 11 [Num 0, Num 0, Num 0])] \<and>
   map buffer_params
     (bufferList (setParameters sync_env visible_rep [(''clipCenter'', JObj 11 [Num 0, Num 0, Num 0])] [] False)) =
     [[(''clipCenter'', JObj 11 [Num 0, Num 0, Num 0])]] \<and>
   loop_bufferParams
     (snd (diff_parameters sync_env visible_rep [(''clipCenter'', JObj 10 [Num 0, Num 0, Num 0])] [] False)) =
     []"
proof -
  let ?v = "JObj 11 [Num 0, Num 0, Num 0]"
  have ch: "\<not> unchanged (coerce sync_env clipCenter_meta ?v) (props visible_rep ''clipCenter'')"
    by (simp add: env_facts unchanged_def visible_rep_facts)
  note d = diff_single [of "''clipCenter''" ?v visible_rep 3 clipCenter_meta sync_env,
      OF _ _ _ visible_rep_facts(3) ch]
  let ?c = "committed sync_env visible_rep ''clipCenter'' clipCenter_meta ?v"
  have bp: "loop_bufferParams (snd (diff_parameters sync_env visible_rep [(''clipCenter'', ?v)] [] False)) =
      [(''clipCenter'', ?v)]"
    by (simp add: d stage_buffer_def clipCenter_meta_def no_meta_def env_facts)
  have s: "setParameters sync_env visible_rep [(''clipCenter'', ?v)] [] False =
      updateParameters sync_env ?c [(''clipCenter'', ?v)] []"
    by (simp add: setParameters_def d stage_buffer_def mark_update_def clipCenter_meta_def
        no_meta_def env_facts escalates_def)
  have nu: "\<not> update_deferred ?c [(''clipCenter'', ?v)]"
    by (simp add: update_deferred_def committed_sel visible_rep_facts)
  have b: "map buffer_params (bufferList (updateParameters sync_env ?c [(''clipCenter'', ?v)] [])) =
      [[(''clipCenter'', ?v)]]"
    by (simp add: updateParameters_plain [OF nu] committed_sel visible_rep_facts requestRender_def
        Buffer_setParameters_def assign_def old_Buffer_def)
  have same: "loop_bufferParams
     (snd (diff_parameters sync_env visible_rep [(''clipCenter'', JObj 10 [Num 0, Num 0, Num 0])] [] False)) = []"
    by (simp add: diff_parameters_def flush_deferred_def setColor_target_def names_scheme_def
        obj_get_def param_step_def Let_def meta_of_def visible_rep_facts env_facts unchanged_def
        cell_strict_eq_def)
  show ?thesis
    by (simp add: bp s b same visible_rep_facts unchanged_def cell_strict_eq_def)
qed

subsection \<open>Further facts\<close>

text \<open>After \<open>init\<close>, a declared \<open>sphereDetail\<close> carries the marker \<open>rebuild: 'impostor'\<close>
  and a declared \<open>disableImpostor\<close> carries \<open>rebuild: true\<close>.\<close>

lemma init_metadata_rebuild:
  "truthy (tp ''sphereDetail'') \<Longrightarrow>
     meta_rebuild (meta_of (init_metadata i tp ''sphereDetail'')) = RebuildImpostor"
  "truthy (tp ''disableImpostor'') \<Longrightarrow>
     meta_rebuild (meta_of (init_metadata i tp ''disableImpostor'')) = RebuildAlways"
  by (simp_all add: init_metadata_def Let_def meta_of_def sphereDetail_meta_def
      disableImpostor_meta_def no_meta_def)

text \<open>Once a representation is disposed, no entry point of the lifecycle runs an attach
  step on it.\<close>

theorem disposed_representation_never_attaches:
  "disposed s \<Longrightarrow>
   attached (build env s updateWhat) = attached s \<and>
   attached (setVisibility env s value noRenderRequest) = attached s \<and>
   attached (updateParameters env s bufferParams what) = attached s \<and>
   attached (setParameters env s p what rebuild) = attached s"
proof -
  assume d: "disposed s"
  have f: "disposed (fst (diff_parameters env s p what rebuild))"
    "attached (fst (diff_parameters env s p what rebuild)) = attached s"
    using d by (simp_all add: diff_parameters_def flush_deferred_def Let_def split: prod.splits if_splits)
  show ?thesis
    using d f disposed_never_attaches(1) [of s env updateWhat]
      disposed_never_attaches(4) [of s env "value" noRenderRequest]
      disposed_never_attaches(5) [of s env bufferParams what]
      disposed_never_attaches(1) [of "fst (diff_parameters env s p what rebuild)" env None]
      disposed_never_attaches(5) [of "fst (diff_parameters env s p what rebuild)" env]
    by (auto simp add: no_attach_def setParameters_def split: prod.splits)
qed

theorem disposed_representation_never_attaches_witness:
  "disposed (dispose lazy_rep) \<and>
   attached (build sync_env (dispose lazy_rep) None) = attached (dispose lazy_rep) \<and>
   attached (setVisibility sync_env (dispose lazy_rep) (JBool True) False) = attached (dispose lazy_rep) \<and>
   attached (setParameters sync_env (dispose lazy_rep) [(''disableImpostor'', JBool True)] [] False) =
     attached (dispose lazy_rep)"
  using disposed_representation_never_attaches [of "dispose lazy_rep" sync_env None "JBool True" False]
    dispose_sel(1) [of lazy_rep]
  by blast

end
